theory Spec2Isabelle
  imports Main "HOL-Library.Word"
begin

section \<open>Checkpoint conversion to the GraniteMoeHybrid schema\<close>

text \<open>
  A shallow embedding of \<^verbatim>\<open>hf_models/model_conversion/granitemoesharedhybrid.py\<close>.
  Exceptions are values of the sum type \<open>error + 'a\<close> (\<open>Inl\<close> the exception), the
  state dict under construction is a map from tensor names to tensors, and the loop over
  the layers is a recursion over the layer indices.
\<close>

subsection \<open>Exceptions\<close>

datatype error =
    AssertionError
  | AttributeError
  | IndexError
  | KeyError string
  | RuntimeError
  | ValueError
  | Raised string

definition ebind :: "error + 'a \<Rightarrow> ('a \<Rightarrow> error + 'b) \<Rightarrow> error + 'b" where
  "ebind m f = (case m of Inl e \<Rightarrow> Inl e | Inr x \<Rightarrow> f x)"

subsection \<open>Tensors\<close>

text \<open>
  A tensor is its shape and its elements in row-major order, as a contiguous
  \<^verbatim>\<open>torch.Tensor\<close> stores them. The conversion only moves elements, so the element
  type is left open. Along dimension \<open>d\<close> the elements fall into \<open>outer\<close> consecutive
  blocks of \<open>shape ! d * inner\<close> elements each, where \<open>outer\<close> is the product of the
  sizes before \<open>d\<close> and \<open>inner\<close> the product of the sizes after it.
\<close>

record 'a tensor =
  shape :: "nat list"
  data :: "'a list"

definition wf_tensor :: "'a tensor \<Rightarrow> bool" where
  "wf_tensor t = (length (data t) = prod_list (shape t))"

definition outer_size :: "nat \<Rightarrow> nat list \<Rightarrow> nat" where
  "outer_size d s = prod_list (take d s)"

definition inner_size :: "nat \<Rightarrow> nat list \<Rightarrow> nat" where
  "inner_size d s = prod_list (drop (Suc d) s)"

primrec blocks :: "nat \<Rightarrow> nat \<Rightarrow> 'a list \<Rightarrow> 'a list list" where
  "blocks 0 m xs = []"
| "blocks (Suc k) m xs = take m xs # blocks k m (drop m xs)"

text \<open>
  \<^verbatim>\<open>wrap_dim\<close>: torch accepts a dimension \<open>-ndim \<le> dim < ndim\<close> and counts a negative
  one from the end; anything else raises IndexError.
\<close>

definition wrap_dim :: "nat \<Rightarrow> int \<Rightarrow> error + nat" where
  "wrap_dim ndim dim =
     (if - int ndim \<le> dim \<and> dim < int ndim
      then Inr (nat (if dim < 0 then dim + int ndim else dim))
      else Inl IndexError)"

text \<open>\<^verbatim>\<open>Tensor.narrow(d, start, len)\<close>: the slices \<open>start ..< start + len\<close> along \<open>d\<close>.\<close>

definition narrow :: "nat \<Rightarrow> nat \<Rightarrow> nat \<Rightarrow> 'a tensor \<Rightarrow> 'a tensor" where
  "narrow d start len t =
     (let inner = inner_size d (shape t) in
      \<lparr>shape = (shape t)[d := len],
       data = concat (map (\<lambda>b. take (len * inner) (drop (start * inner) b))
                (blocks (outer_size d (shape t)) (shape t ! d * inner) (data t)))\<rparr>)"

primrec split_with_sizes :: "nat \<Rightarrow> nat \<Rightarrow> nat list \<Rightarrow> 'a tensor \<Rightarrow> 'a tensor list" where
  "split_with_sizes d start [] t = []"
| "split_with_sizes d start (l # ls) t = narrow d start l t # split_with_sizes d (start + l) ls t"

text \<open>
  \<^verbatim>\<open>Tensor.split(split_size, dim)\<close> cuts the dimension of size \<open>n\<close> into
  \<open>max (ceil (n / split_size)) 1\<close> pieces, all of \<open>split_size\<close> slices but the last.
\<close>

definition split_lens :: "nat \<Rightarrow> nat \<Rightarrow> nat list" where
  "split_lens n s =
     (let num = max ((n + s - 1) div s) 1; last_len = s - (s * num - n)
      in replicate (num - 1) s @ [last_len])"

text \<open>
  \<^verbatim>\<open>Tensor.chunk(chunks, dim)\<close>: the split size is \<open>ceil (n / chunks)\<close>; a dimension of
  size 0 gives \<open>chunks\<close> empty pieces, any other goes through \<^verbatim>\<open>split\<close> and may give
  fewer pieces than asked for. A tensor without dimensions is refused.
\<close>

definition torch_chunk :: "nat \<Rightarrow> int \<Rightarrow> 'a tensor \<Rightarrow> error + 'a tensor list" where
  "torch_chunk chunks dim t =
     (if length (shape t) = 0 \<or> chunks = 0 then Inl RuntimeError
      else ebind (wrap_dim (length (shape t)) dim) (\<lambda>d.
        let n = shape t ! d; split_size = (n + chunks - 1) div chunks in
        if split_size = 0 \<and> n = 0 then Inr (split_with_sizes d 0 (replicate chunks 0) t)
        else Inr (split_with_sizes d 0 (split_lens n split_size) t)))"

text \<open>
  \<^verbatim>\<open>torch.cat(tensors, dim)\<close>: the tensors agree in every size but the one along
  \<open>dim\<close>; block by block, the pieces are laid one after the other.
\<close>

primrec cat_data :: "nat \<Rightarrow> (nat \<times> 'a list) list \<Rightarrow> 'a list" where
  "cat_data 0 ps = []"
| "cat_data (Suc k) ps =
     concat (map (\<lambda>(m, xs). take m xs) ps) @ cat_data k (map (\<lambda>(m, xs). (m, drop m xs)) ps)"

definition torch_cat :: "'a tensor list \<Rightarrow> int \<Rightarrow> error + 'a tensor" where
  "torch_cat ts dim =
     (case ts of
        [] \<Rightarrow> Inl RuntimeError
      | t0 # _ \<Rightarrow>
          ebind (wrap_dim (length (shape t0)) dim) (\<lambda>d.
            if list_all (\<lambda>t. length (shape t) = length (shape t0)
                             \<and> (shape t)[d := 0] = (shape t0)[d := 0]) ts
            then Inr \<lparr>shape = (shape t0)[d := sum_list (map (\<lambda>t. shape t ! d) ts)],
                      data = cat_data (outer_size d (shape t0))
                               (map (\<lambda>t. (shape t ! d * inner_size d (shape t0), data t)) ts)\<rparr>
            else Inl RuntimeError))"

subsection \<open>Swapping the halves of a gated-linear-unit weight\<close>

text \<open>
  \<^verbatim>\<open>x, y = weight.chunk(2, dim=dim)\<close> raises ValueError unless the chunking gives
  exactly two pieces.
\<close>

definition split_and_reorder_for_glu :: "'a tensor \<Rightarrow> int \<Rightarrow> error + 'a tensor" where
  "split_and_reorder_for_glu weight dim =
     ebind (torch_chunk 2 dim weight) (\<lambda>cs.
       case cs of
         [x, y] \<Rightarrow> torch_cat [y, x] dim
       | _ \<Rightarrow> Inl ValueError)"

text \<open>
  What the swap is meant to be, in the words of the specification: along dimension \<open>d\<close>
  the tensor is cut into a first part of \<open>ceil (n / 2)\<close> slices and a second part of the
  rest (two halves when \<open>n\<close> is even), and the second part is put before the first.
\<close>

definition swap_halves :: "nat \<Rightarrow> 'a tensor \<Rightarrow> 'a tensor" where
  "swap_halves d t =
     (let n = shape t ! d; k = (n + 1) div 2; inner = inner_size d (shape t) in
      \<lparr>shape = shape t,
       data = concat (map (\<lambda>b. drop (k * inner) b @ take (k * inner) b)
                (blocks (outer_size d (shape t)) (n * inner) (data t)))\<rparr>)"

text \<open>Moving every slice along \<open>d\<close> by \<open>j\<close> places towards the front, cyclically.\<close>

definition roll_left :: "nat \<Rightarrow> nat \<Rightarrow> 'a tensor \<Rightarrow> 'a tensor" where
  "roll_left d j t =
     (let inner = inner_size d (shape t) in
      \<lparr>shape = shape t,
       data = concat (map (rotate (j * inner))
                (blocks (outer_size d (shape t)) (shape t ! d * inner) (data t)))\<rparr>)"

subsection \<open>Configuration values\<close>

text \<open>
  The values a configuration field can hold. A float is its 64 bits: the conversion
  copies floats and never computes with them.
\<close>

datatype pyval =
    PNone
  | PBool bool
  | PInt int
  | PFloat "64 word"
  | PStr string
  | PList "pyval list"
  | PDict "(string \<times> pyval) list"

text \<open>
  A block of \<^verbatim>\<open>sequence_mixer_blocks\<close> or \<^verbatim>\<open>mlp_blocks\<close> is a dict or an argument
  object of the configuration class. Every such object carries the attribute
  \<^verbatim>\<open>sequence_mixer_type\<close>; its other attributes are listed by name.
\<close>

datatype block =
    DictBlock "(string \<times> pyval) list"
  | ArgsBlock pyval "(string \<times> pyval) list"

record config =
  vocab_size :: pyval
  max_position_embeddings :: pyval
  hidden_size :: pyval
  num_layers :: int
  layer_norm_epsilon :: pyval
  use_cache :: pyval
  tie_word_embeddings :: pyval
  initializer_range :: pyval
  rope_theta :: pyval
  rope_scaling :: pyval
  router_aux_loss_coef :: pyval
  bos_token_id :: pyval
  eos_token_id :: pyval
  pad_token_id :: pyval
  m_emb :: pyval
  m_residual :: pyval
  m_width :: pyval
  normalization_function :: pyval
  position_embedding_type :: pyval
  init_method :: pyval
  sequence_mixer_blocks :: "block list"
  mlp_blocks :: "block list"

text \<open>
  The target configuration: the keyword arguments handed to the constructor of
  \<^verbatim>\<open>GraniteMoeHybridConfig\<close>, a class of the transformers library.
\<close>

record hf_config =
  hf_vocab_size :: pyval
  hf_max_position_embeddings :: pyval
  hf_hidden_size :: pyval
  hf_num_hidden_layers :: int
  hf_num_attention_heads :: pyval
  hf_shared_intermediate_size :: pyval
  hf_num_key_value_heads :: pyval
  hf_intermediate_size :: pyval
  hf_hidden_act :: pyval
  hf_rms_norm_eps :: pyval
  hf_use_cache :: pyval
  hf_attention_bias :: pyval
  hf_tie_word_embeddings :: pyval
  hf_initializer_range :: pyval
  hf_rope_theta :: pyval
  hf_rope_scaling :: pyval
  hf_attention_dropout :: pyval
  hf_num_local_experts :: pyval
  hf_num_experts_per_tok :: pyval
  hf_router_aux_loss_coef :: pyval
  hf_bos_token_id :: pyval
  hf_eos_token_id :: pyval
  hf_pad_token_id :: pyval
  hf_embedding_multiplier :: pyval
  hf_residual_multiplier :: pyval
  hf_logits_scaling :: pyval
  hf_attention_multiplier :: pyval
  hf_mamba_n_groups :: pyval
  hf_mamba_n_heads :: pyval
  hf_mamba_d_state :: pyval
  hf_mamba_d_conv :: pyval
  hf_mamba_chunk_size :: pyval
  hf_mamba_conv_bias :: pyval
  hf_mamba_proj_bias :: pyval
  hf_layer_types :: "pyval list"
  hf_normalization_function :: pyval
  hf_position_embedding_type :: pyval
  hf_init_method :: pyval
  hf_architectures :: "pyval list"

subsection \<open>The sequence-mixer block types\<close>

text \<open>
  \<^verbatim>\<open>_get(block, key)\<close>: \<^verbatim>\<open>block.get(key)\<close> on a dict, which is None for an absent
  key, and \<^verbatim>\<open>getattr(block, key)\<close> otherwise, which raises for an absent attribute.
\<close>

definition get_key :: "block \<Rightarrow> string \<Rightarrow> error + pyval" where
  "get_key blk key =
     (case blk of
        DictBlock d \<Rightarrow> (case map_of d key of None \<Rightarrow> Inr PNone | Some v \<Rightarrow> Inr v)
      | ArgsBlock ty attrs \<Rightarrow>
          (if key = ''sequence_mixer_type'' then Inr ty
           else case map_of attrs key of None \<Rightarrow> Inl AttributeError | Some v \<Rightarrow> Inr v))"

definition rename_block_type :: "pyval \<Rightarrow> pyval" where
  "rename_block_type block_type =
     (if block_type = PStr ''mamba2'' then PStr ''mamba''
      else if block_type = PStr ''softmax_attention'' then PStr ''attention''
      else block_type)"

fun block_types_loop :: "block list \<Rightarrow> pyval list \<Rightarrow> error + pyval list" where
  "block_types_loop [] seq_mixer_block_types = Inr seq_mixer_block_types"
| "block_types_loop (blk # blks) seq_mixer_block_types =
     ebind (get_key blk ''sequence_mixer_type'') (\<lambda>block_type.
       block_types_loop blks (seq_mixer_block_types @ [rename_block_type block_type]))"

definition get_sequence_mixer_block_types :: "config \<Rightarrow> error + pyval list" where
  "get_sequence_mixer_block_types cfg = block_types_loop (sequence_mixer_blocks cfg) []"

subsection \<open>The configuration\<close>

text \<open>
  The methods \<^verbatim>\<open>check_equal_for_all_and_get_value\<close> and
  \<^verbatim>\<open>check_equal_for_all_seq_mixer_and_get_value\<close> belong to the configuration class,
  which is not part of this file: they are the parameters \<open>chk\<close> (configuration, key, key
  of the block, expected value, None when not given) and \<open>chk_sm\<close> (configuration, key,
  sequence-mixer type, key of the block), each returning a value or raising. The calls
  are made in Python's order: the statements from top to bottom, then the keyword
  arguments of the constructor from first to last.
\<close>

definition default_if_none :: "pyval \<Rightarrow> pyval \<Rightarrow> pyval" where
  "default_if_none dflt v = (if v = PNone then dflt else v)"

definition export_config_to_huggingface ::
  "(config \<Rightarrow> string \<Rightarrow> string \<Rightarrow> pyval \<Rightarrow> error + pyval) \<Rightarrow>
   (config \<Rightarrow> string \<Rightarrow> string \<Rightarrow> string \<Rightarrow> error + pyval) \<Rightarrow>
   config \<Rightarrow> error + hf_config" where
  "export_config_to_huggingface chk chk_sm cfg =
     (if normalization_function cfg \<noteq> PStr ''rmsnorm'' then Inl AssertionError
      else
      ebind (chk cfg ''sequence_mixer_blocks'' ''add_bias'' (PBool False)) (\<lambda>_.
      ebind (chk cfg ''mlp_blocks'' ''add_bias'' (PBool False)) (\<lambda>_.
      ebind (chk cfg ''mlp_blocks'' ''activation_function'' (PStr ''swiglu'')) (\<lambda>_.
      ebind (chk cfg ''mlp_blocks'' ''mlp_type'' (PStr ''MoE'')) (\<lambda>_.
      ebind (chk cfg ''mlp_blocks'' ''shared_intermediate_size'' PNone) (\<lambda>shared_intermediate_size.
      ebind (chk_sm cfg ''sequence_mixer_blocks'' ''softmax_attention'' ''num_attention_heads'') (\<lambda>num_attention_heads.
      ebind (chk_sm cfg ''sequence_mixer_blocks'' ''softmax_attention'' ''num_key_value_heads'') (\<lambda>num_key_value_heads.
      ebind (chk cfg ''mlp_blocks'' ''intermediate_size'' PNone) (\<lambda>intermediate_size.
      ebind (chk_sm cfg ''sequence_mixer_blocks'' ''softmax_attention'' ''add_bias'') (\<lambda>attention_bias.
      ebind (chk_sm cfg ''sequence_mixer_blocks'' ''softmax_attention'' ''dropout'') (\<lambda>attention_dropout.
      ebind (chk cfg ''mlp_blocks'' ''num_experts'' PNone) (\<lambda>num_local_experts.
      ebind (chk cfg ''mlp_blocks'' ''num_experts_per_tok'' PNone) (\<lambda>num_experts_per_tok.
      ebind (chk_sm cfg ''sequence_mixer_blocks'' ''softmax_attention'' ''attention_multiplier'') (\<lambda>attention_multiplier.
      ebind (chk_sm cfg ''sequence_mixer_blocks'' ''mamba2'' ''num_groups'') (\<lambda>mamba_n_groups.
      ebind (chk_sm cfg ''sequence_mixer_blocks'' ''mamba2'' ''num_heads'') (\<lambda>mamba_n_heads.
      ebind (chk_sm cfg ''sequence_mixer_blocks'' ''mamba2'' ''state_size'') (\<lambda>mamba_d_state.
      ebind (chk_sm cfg ''sequence_mixer_blocks'' ''mamba2'' ''conv_kernel_size'') (\<lambda>mamba_d_conv.
      ebind (chk_sm cfg ''sequence_mixer_blocks'' ''mamba2'' ''chunk_size'') (\<lambda>mamba_chunk_size.
      ebind (chk_sm cfg ''sequence_mixer_blocks'' ''mamba2'' ''use_conv_bias'') (\<lambda>mamba_conv_bias.
      ebind (chk_sm cfg ''sequence_mixer_blocks'' ''mamba2'' ''add_bias'') (\<lambda>mamba_proj_bias.
      ebind (get_sequence_mixer_block_types cfg) (\<lambda>layer_types.
      Inr \<lparr>hf_vocab_size = vocab_size cfg,
           hf_max_position_embeddings = max_position_embeddings cfg,
           hf_hidden_size = hidden_size cfg,
           hf_num_hidden_layers = num_layers cfg,
           hf_num_attention_heads = num_attention_heads,
           hf_shared_intermediate_size = default_if_none (PInt 0) shared_intermediate_size,
           hf_num_key_value_heads = num_key_value_heads,
           hf_intermediate_size = intermediate_size,
           hf_hidden_act = PStr ''silu'',
           hf_rms_norm_eps = layer_norm_epsilon cfg,
           hf_use_cache = use_cache cfg,
           hf_attention_bias = attention_bias,
           hf_tie_word_embeddings = tie_word_embeddings cfg,
           hf_initializer_range = initializer_range cfg,
           hf_rope_theta = rope_theta cfg,
           hf_rope_scaling = rope_scaling cfg,
           hf_attention_dropout = attention_dropout,
           hf_num_local_experts = num_local_experts,
           hf_num_experts_per_tok = num_experts_per_tok,
           hf_router_aux_loss_coef = router_aux_loss_coef cfg,
           hf_bos_token_id = bos_token_id cfg,
           hf_eos_token_id = eos_token_id cfg,
           hf_pad_token_id = pad_token_id cfg,
           hf_embedding_multiplier = default_if_none (PInt 1) (m_emb cfg),
           hf_residual_multiplier = default_if_none (PInt 1) (m_residual cfg),
           hf_logits_scaling = default_if_none (PInt 1) (m_width cfg),
           hf_attention_multiplier = attention_multiplier,
           hf_mamba_n_groups = mamba_n_groups,
           hf_mamba_n_heads = mamba_n_heads,
           hf_mamba_d_state = mamba_d_state,
           hf_mamba_d_conv = mamba_d_conv,
           hf_mamba_chunk_size = mamba_chunk_size,
           hf_mamba_conv_bias = mamba_conv_bias,
           hf_mamba_proj_bias = mamba_proj_bias,
           hf_layer_types = layer_types,
           hf_normalization_function = normalization_function cfg,
           hf_position_embedding_type = position_embedding_type cfg,
           hf_init_method = init_method cfg,
           hf_architectures = [PStr ''GraniteMoeHybridForCausalLM'']\<rparr>))))))))))))))))))))))"

subsection \<open>Tensor names\<close>

text \<open>The decimal text of a layer index, as an f-string writes it.\<close>

definition digit_char :: "nat \<Rightarrow> char" where
  "digit_char d = ''0123456789'' ! d"

fun str_nat :: "nat \<Rightarrow> string" where
  "str_nat n = (if n < 10 then [digit_char n] else str_nat (n div 10) @ [digit_char (n mod 10)])"

declare str_nat.simps [simp del]

definition is_digit :: "char \<Rightarrow> bool" where
  "is_digit c = (c \<in> set ''0123456789'')"

definition src_name :: "nat \<Rightarrow> string \<Rightarrow> string" where
  "src_name layer_idx suffix = ''transformer.h.'' @ str_nat layer_idx @ suffix"

definition tgt_name :: "nat \<Rightarrow> string \<Rightarrow> string" where
  "tgt_name layer_idx suffix = ''model.layers.'' @ str_nat layer_idx @ suffix"

subsection \<open>The state dict\<close>

text \<open>
  The weights manager of the source checkpoint (\<^verbatim>\<open>SafeTensorsWeightsManager\<close>, defined
  outside this file) is the checkpoint's map from names to tensors: \<^verbatim>\<open>has_tensor\<close>
  tells whether a name is there and \<^verbatim>\<open>get_tensor\<close> raises KeyError when it is not.
\<close>

type_synonym 'a weights = "string \<rightharpoonup> 'a tensor"

type_synonym 'a state_dict = "string \<rightharpoonup> 'a tensor"

definition has_tensor :: "'a weights \<Rightarrow> string \<Rightarrow> bool" where
  "has_tensor wm name = (case wm name of None \<Rightarrow> False | Some _ \<Rightarrow> True)"

definition get_tensor :: "'a weights \<Rightarrow> string \<Rightarrow> error + 'a tensor" where
  "get_tensor wm name = (case wm name of None \<Rightarrow> Inl (KeyError name) | Some t \<Rightarrow> Inr t)"

text \<open>The statement \<^verbatim>\<open>state_dict[tgt] = manager.get_tensor(src)\<close>.\<close>

definition copy_tensor :: "'a weights \<Rightarrow> string \<Rightarrow> string \<Rightarrow> 'a state_dict \<Rightarrow> error + 'a state_dict" where
  "copy_tensor wm src tgt sd = ebind (get_tensor wm src) (\<lambda>t. Inr (sd(tgt \<mapsto> t)))"

text \<open>
  The statement
  \<^verbatim>\<open>state_dict[tgt] = _split_and_reorder_for_glu(manager.get_tensor(src), dim=dim)\<close>.
\<close>

definition glu_tensor ::
  "'a weights \<Rightarrow> string \<Rightarrow> int \<Rightarrow> string \<Rightarrow> 'a state_dict \<Rightarrow> error + 'a state_dict" where
  "glu_tensor wm src dim tgt sd =
     ebind (get_tensor wm src) (\<lambda>t.
     ebind (split_and_reorder_for_glu t dim) (\<lambda>u. Inr (sd(tgt \<mapsto> u))))"

text \<open>\<^verbatim>\<open>seq_mixer_block_types[layer_idx]\<close> for an index that is not negative.\<close>

definition list_get :: "'b list \<Rightarrow> nat \<Rightarrow> error + 'b" where
  "list_get xs i = (if i < length xs then Inr (xs ! i) else Inl IndexError)"

text \<open>The branch of a mamba layer: eight tensors are copied.\<close>

definition export_mamba :: "'a weights \<Rightarrow> nat \<Rightarrow> 'a state_dict \<Rightarrow> error + 'a state_dict" where
  "export_mamba wm i sd =
     ebind (copy_tensor wm (src_name i ''.sequence_mixer.conv1d.weight'')
              (tgt_name i ''.mamba.conv1d.weight'') sd) (\<lambda>sd.
     ebind (copy_tensor wm (src_name i ''.sequence_mixer.conv1d.bias'')
              (tgt_name i ''.mamba.conv1d.bias'') sd) (\<lambda>sd.
     ebind (copy_tensor wm (src_name i ''.sequence_mixer.in_proj.weight'')
              (tgt_name i ''.mamba.in_proj.weight'') sd) (\<lambda>sd.
     ebind (copy_tensor wm (src_name i ''.sequence_mixer.dt_bias'')
              (tgt_name i ''.mamba.dt_bias'') sd) (\<lambda>sd.
     ebind (copy_tensor wm (src_name i ''.sequence_mixer.A_log'')
              (tgt_name i ''.mamba.A_log'') sd) (\<lambda>sd.
     ebind (copy_tensor wm (src_name i ''.sequence_mixer.D'')
              (tgt_name i ''.mamba.D'') sd) (\<lambda>sd.
     ebind (copy_tensor wm (src_name i ''.sequence_mixer.out_proj.weight'')
              (tgt_name i ''.mamba.out_proj.weight'') sd) (\<lambda>sd.
     copy_tensor wm (src_name i ''.sequence_mixer.norm.weight'')
       (tgt_name i ''.mamba.norm.weight'') sd)))))))"

text \<open>
  The branch of an attention layer. The function
  \<^verbatim>\<open>split_query_key_value_tensor_for_attention\<close> is imported from
  \<^verbatim>\<open>modeling_utils\<close>: it is the parameter \<open>split_qkv\<close>, which returns the query, key and
  value tensors or raises.
\<close>

definition export_attention ::
  "('a tensor \<Rightarrow> 'n \<Rightarrow> 'n \<Rightarrow> 'n \<Rightarrow> 'h \<Rightarrow> error + ('a tensor \<times> 'a tensor \<times> 'a tensor)) \<Rightarrow>
   'a weights \<Rightarrow> 'n \<Rightarrow> 'n \<Rightarrow> 'n \<Rightarrow> 'h \<Rightarrow> nat \<Rightarrow> 'a state_dict \<Rightarrow> error + 'a state_dict" where
  "export_attention split_qkv wm num_heads num_key_value_heads head_dim attention_head_type i sd =
     ebind (get_tensor wm (src_name i ''.sequence_mixer.c_attn.weight'')) (\<lambda>c_attn.
     ebind (split_qkv c_attn num_heads num_key_value_heads head_dim attention_head_type)
       (\<lambda>(query_weight, key_weight, value_weight).
     copy_tensor wm (src_name i ''.sequence_mixer.c_proj.weight'')
       (tgt_name i ''.self_attn.o_proj.weight'')
       (sd(tgt_name i ''.self_attn.q_proj.weight'' \<mapsto> query_weight,
           tgt_name i ''.self_attn.k_proj.weight'' \<mapsto> key_weight,
           tgt_name i ''.self_attn.v_proj.weight'' \<mapsto> value_weight))))"

text \<open>The shared MLP, exported when the checkpoint has its input weight.\<close>

definition export_shared :: "'a weights \<Rightarrow> nat \<Rightarrow> 'a state_dict \<Rightarrow> error + 'a state_dict" where
  "export_shared wm i sd =
     (if has_tensor wm (src_name i ''.mlp_block.c_fc_shared.weight'')
      then ebind (glu_tensor wm (src_name i ''.mlp_block.c_fc_shared.weight'') 0
                    (tgt_name i ''.shared_mlp.input_linear.weight'') sd) (\<lambda>sd.
           copy_tensor wm (src_name i ''.mlp_block.c_proj_shared.weight'')
             (tgt_name i ''.shared_mlp.output_linear.weight'') sd)
      else Inr sd)"

text \<open>The body of the loop over the layers.\<close>

definition export_layer ::
  "('a tensor \<Rightarrow> 'n \<Rightarrow> 'n \<Rightarrow> 'n \<Rightarrow> 'h \<Rightarrow> error + ('a tensor \<times> 'a tensor \<times> 'a tensor)) \<Rightarrow>
   'a weights \<Rightarrow> pyval list \<Rightarrow> 'n \<Rightarrow> 'n \<Rightarrow> 'n \<Rightarrow> 'h \<Rightarrow> nat \<Rightarrow> 'a state_dict \<Rightarrow>
   error + 'a state_dict" where
  "export_layer split_qkv wm seq_mixer_block_types num_heads num_key_value_heads head_dim
       attention_head_type i sd =
     ebind (copy_tensor wm (src_name i ''.ln_1.weight'')
              (tgt_name i ''.input_layernorm.weight'') sd) (\<lambda>sd.
     ebind (copy_tensor wm (src_name i ''.ln_2.weight'')
              (tgt_name i ''.post_attention_layernorm.weight'') sd) (\<lambda>sd.
     ebind (copy_tensor wm (src_name i ''.mlp_block.gate.weight'')
              (tgt_name i ''.block_sparse_moe.router.layer.weight'') sd) (\<lambda>sd.
     ebind (glu_tensor wm (src_name i ''.mlp_block.c_fc.weight'') 1
              (tgt_name i ''.block_sparse_moe.input_linear.weight'') sd) (\<lambda>sd.
     ebind (copy_tensor wm (src_name i ''.mlp_block.c_proj.weight'')
              (tgt_name i ''.block_sparse_moe.output_linear.weight'') sd) (\<lambda>sd.
     ebind (list_get seq_mixer_block_types i) (\<lambda>block_type.
     ebind (if block_type = PStr ''mamba'' then export_mamba wm i sd
            else if block_type = PStr ''attention''
            then export_attention split_qkv wm num_heads num_key_value_heads head_dim
                   attention_head_type i sd
            else Inr sd) (\<lambda>sd.
     export_shared wm i sd)))))))"

fun export_layers ::
  "('a tensor \<Rightarrow> 'n \<Rightarrow> 'n \<Rightarrow> 'n \<Rightarrow> 'h \<Rightarrow> error + ('a tensor \<times> 'a tensor \<times> 'a tensor)) \<Rightarrow>
   'a weights \<Rightarrow> pyval list \<Rightarrow> 'n \<Rightarrow> 'n \<Rightarrow> 'n \<Rightarrow> 'h \<Rightarrow> nat list \<Rightarrow> 'a state_dict \<Rightarrow>
   error + 'a state_dict" where
  "export_layers split_qkv wm tys num_heads num_key_value_heads head_dim aht [] sd = Inr sd"
| "export_layers split_qkv wm tys num_heads num_key_value_heads head_dim aht (i # is) sd =
     ebind (export_layer split_qkv wm tys num_heads num_key_value_heads head_dim aht i sd)
       (export_layers split_qkv wm tys num_heads num_key_value_heads head_dim aht is)"

text \<open>
  \<^verbatim>\<open>_export_state_dict_to_huggingface\<close>. The function \<^verbatim>\<open>get_attention_head_type\<close> is
  imported from \<^verbatim>\<open>modeling_utils\<close>: it is the parameter \<open>head_type\<close>.
  \<^verbatim>\<open>range(num_layers)\<close> is empty for a negative \<open>num_layers\<close>.
\<close>

definition export_state_dict_to_huggingface ::
  "('n \<Rightarrow> 'n \<Rightarrow> error + 'h) \<Rightarrow>
   ('a tensor \<Rightarrow> 'n \<Rightarrow> 'n \<Rightarrow> 'n \<Rightarrow> 'h \<Rightarrow> error + ('a tensor \<times> 'a tensor \<times> 'a tensor)) \<Rightarrow>
   'a weights \<Rightarrow> int \<Rightarrow> pyval list \<Rightarrow> 'n \<Rightarrow> 'n \<Rightarrow> 'n \<Rightarrow> error + 'a state_dict" where
  "export_state_dict_to_huggingface head_type split_qkv wm n_layers seq_mixer_block_types
       num_heads num_key_value_heads head_dim =
     ebind (get_tensor wm ''transformer.wte.weight'') (\<lambda>wte.
     ebind (get_tensor wm ''transformer.ln_f.weight'') (\<lambda>ln_f.
     ebind (head_type num_heads num_key_value_heads) (\<lambda>attention_head_type.
     ebind (if has_tensor wm ''lm_head.weight''
            then copy_tensor wm ''lm_head.weight'' ''lm_head.weight''
                   [''model.embed_tokens.weight'' \<mapsto> wte, ''model.norm.weight'' \<mapsto> ln_f]
            else Inr [''model.embed_tokens.weight'' \<mapsto> wte, ''model.norm.weight'' \<mapsto> ln_f])
       (\<lambda>sd.
     export_layers split_qkv wm seq_mixer_block_types num_heads num_key_value_heads head_dim
       attention_head_type [0..<nat n_layers] sd))))"

text \<open>The type a block declares: what \<^verbatim>\<open>_get(block, "sequence_mixer_type")\<close> reads.\<close>

definition block_type_of :: "block \<Rightarrow> pyval" where
  "block_type_of blk =
     (case blk of
        DictBlock d \<Rightarrow> (case map_of d ''sequence_mixer_type'' of None \<Rightarrow> PNone | Some v \<Rightarrow> v)
      | ArgsBlock ty attrs \<Rightarrow> ty)"

text \<open>The calls of the two check methods that \<^verbatim>\<open>_export_config_to_huggingface\<close> makes:
  the eight of \<^verbatim>\<open>check_equal_for_all_and_get_value\<close> (key, key of the block, expected
  value, \<^verbatim>\<open>None\<close> when the source passes none) and the twelve of
  \<^verbatim>\<open>check_equal_for_all_seq_mixer_and_get_value\<close> (key, sequence mixer type, key of the
  block).\<close>

definition chk_calls :: "(string \<times> string \<times> pyval) list" where
  "chk_calls =
     [(''sequence_mixer_blocks'', ''add_bias'', PBool False),
      (''mlp_blocks'', ''add_bias'', PBool False),
      (''mlp_blocks'', ''activation_function'', PStr ''swiglu''),
      (''mlp_blocks'', ''mlp_type'', PStr ''MoE''),
      (''mlp_blocks'', ''shared_intermediate_size'', PNone),
      (''mlp_blocks'', ''intermediate_size'', PNone),
      (''mlp_blocks'', ''num_experts'', PNone),
      (''mlp_blocks'', ''num_experts_per_tok'', PNone)]"

definition chk_sm_calls :: "(string \<times> string \<times> string) list" where
  "chk_sm_calls =
     [(''sequence_mixer_blocks'', ''softmax_attention'', ''num_attention_heads''),
      (''sequence_mixer_blocks'', ''softmax_attention'', ''num_key_value_heads''),
      (''sequence_mixer_blocks'', ''softmax_attention'', ''add_bias''),
      (''sequence_mixer_blocks'', ''softmax_attention'', ''dropout''),
      (''sequence_mixer_blocks'', ''softmax_attention'', ''attention_multiplier''),
      (''sequence_mixer_blocks'', ''mamba2'', ''num_groups''),
      (''sequence_mixer_blocks'', ''mamba2'', ''num_heads''),
      (''sequence_mixer_blocks'', ''mamba2'', ''state_size''),
      (''sequence_mixer_blocks'', ''mamba2'', ''conv_kernel_size''),
      (''sequence_mixer_blocks'', ''mamba2'', ''chunk_size''),
      (''sequence_mixer_blocks'', ''mamba2'', ''use_conv_bias''),
      (''sequence_mixer_blocks'', ''mamba2'', ''add_bias'')]"

subsection \<open>The assignments of the export\<close>

text \<open>
  Every statement of \<^verbatim>\<open>_export_state_dict_to_huggingface\<close> that writes the state dict
  stores under a target name a tensor made from one source tensor, in one of three
  ways: the tensor itself, one of the three parts the attention split returns, or the
  tensor with its halves swapped along a dimension.
\<close>

datatype qkv_part = Query | Key | Value

datatype transformation = Rename | SplitQKV qkv_part | SwapHalves int

type_synonym assignment = "string \<times> transformation \<times> string"

text \<open>
  The tensor a transformation makes from the source tensor of a name; \<open>split\<close> is
  \<^verbatim>\<open>split_query_key_value_tensor_for_attention\<close> at the head layout of the export.
\<close>

definition transform ::
  "('a tensor \<Rightarrow> error + ('a tensor \<times> 'a tensor \<times> 'a tensor)) \<Rightarrow> 'a weights \<Rightarrow>
   transformation \<Rightarrow> string \<Rightarrow> error + 'a tensor" where
  "transform split wm tr src =
     ebind (get_tensor wm src) (\<lambda>w.
       case tr of
         Rename \<Rightarrow> Inr w
       | SplitQKV p \<Rightarrow>
           ebind (split w) (\<lambda>(query_weight, key_weight, value_weight).
             Inr (case p of Query \<Rightarrow> query_weight | Key \<Rightarrow> key_weight | Value \<Rightarrow> value_weight))
       | SwapHalves dim \<Rightarrow> split_and_reorder_for_glu w dim)"

text \<open>Carrying out one assignment, and a list of them in order.\<close>

definition assign ::
  "('a tensor \<Rightarrow> error + ('a tensor \<times> 'a tensor \<times> 'a tensor)) \<Rightarrow> 'a weights \<Rightarrow>
   assignment \<Rightarrow> 'a state_dict \<Rightarrow> error + 'a state_dict" where
  "assign split wm e sd =
     (case e of (tgt, tr, src) \<Rightarrow> ebind (transform split wm tr src) (\<lambda>t. Inr (sd(tgt \<mapsto> t))))"

fun perform ::
  "('a tensor \<Rightarrow> error + ('a tensor \<times> 'a tensor \<times> 'a tensor)) \<Rightarrow> 'a weights \<Rightarrow>
   assignment list \<Rightarrow> 'a state_dict \<Rightarrow> error + 'a state_dict" where
  "perform split wm [] sd = Inr sd"
| "perform split wm (e # es) sd = ebind (assign split wm e sd) (perform split wm es)"

text \<open>
  The assignments in the order of the source: those before the loop, then for layer
  \<open>i\<close> the five every layer has, those of its sequence mixer and, when the checkpoint
  has the shared input weight, the two of the shared MLP.
\<close>

definition base_assignments :: "assignment list" where
  "base_assignments =
     [(''model.embed_tokens.weight'', Rename, ''transformer.wte.weight''),
      (''model.norm.weight'', Rename, ''transformer.ln_f.weight'')]"

definition lm_head_assignments :: "assignment list" where
  "lm_head_assignments = [(''lm_head.weight'', Rename, ''lm_head.weight'')]"

definition common_assignments :: "nat \<Rightarrow> assignment list" where
  "common_assignments i =
     [(tgt_name i ''.input_layernorm.weight'', Rename, src_name i ''.ln_1.weight''),
      (tgt_name i ''.post_attention_layernorm.weight'', Rename, src_name i ''.ln_2.weight''),
      (tgt_name i ''.block_sparse_moe.router.layer.weight'', Rename,
         src_name i ''.mlp_block.gate.weight''),
      (tgt_name i ''.block_sparse_moe.input_linear.weight'', SwapHalves 1,
         src_name i ''.mlp_block.c_fc.weight''),
      (tgt_name i ''.block_sparse_moe.output_linear.weight'', Rename,
         src_name i ''.mlp_block.c_proj.weight'')]"

definition mamba_assignments :: "nat \<Rightarrow> assignment list" where
  "mamba_assignments i =
     [(tgt_name i ''.mamba.conv1d.weight'', Rename, src_name i ''.sequence_mixer.conv1d.weight''),
      (tgt_name i ''.mamba.conv1d.bias'', Rename, src_name i ''.sequence_mixer.conv1d.bias''),
      (tgt_name i ''.mamba.in_proj.weight'', Rename, src_name i ''.sequence_mixer.in_proj.weight''),
      (tgt_name i ''.mamba.dt_bias'', Rename, src_name i ''.sequence_mixer.dt_bias''),
      (tgt_name i ''.mamba.A_log'', Rename, src_name i ''.sequence_mixer.A_log''),
      (tgt_name i ''.mamba.D'', Rename, src_name i ''.sequence_mixer.D''),
      (tgt_name i ''.mamba.out_proj.weight'', Rename, src_name i ''.sequence_mixer.out_proj.weight''),
      (tgt_name i ''.mamba.norm.weight'', Rename, src_name i ''.sequence_mixer.norm.weight'')]"

definition attention_assignments :: "nat \<Rightarrow> assignment list" where
  "attention_assignments i =
     [(tgt_name i ''.self_attn.q_proj.weight'', SplitQKV Query,
         src_name i ''.sequence_mixer.c_attn.weight''),
      (tgt_name i ''.self_attn.k_proj.weight'', SplitQKV Key,
         src_name i ''.sequence_mixer.c_attn.weight''),
      (tgt_name i ''.self_attn.v_proj.weight'', SplitQKV Value,
         src_name i ''.sequence_mixer.c_attn.weight''),
      (tgt_name i ''.self_attn.o_proj.weight'', Rename, src_name i ''.sequence_mixer.c_proj.weight'')]"

definition shared_assignments :: "nat \<Rightarrow> assignment list" where
  "shared_assignments i =
     [(tgt_name i ''.shared_mlp.input_linear.weight'', SwapHalves 0,
         src_name i ''.mlp_block.c_fc_shared.weight''),
      (tgt_name i ''.shared_mlp.output_linear.weight'', Rename,
         src_name i ''.mlp_block.c_proj_shared.weight'')]"

definition mixer_assignments :: "pyval \<Rightarrow> nat \<Rightarrow> assignment list" where
  "mixer_assignments block_type i =
     (if block_type = PStr ''mamba'' then mamba_assignments i
      else if block_type = PStr ''attention'' then attention_assignments i
      else [])"

definition layer_assignments :: "'a weights \<Rightarrow> pyval list \<Rightarrow> nat \<Rightarrow> assignment list" where
  "layer_assignments wm tys i =
     common_assignments i @ mixer_assignments (tys ! i) i
     @ (if has_tensor wm (src_name i ''.mlp_block.c_fc_shared.weight'')
        then shared_assignments i else [])"

definition assignments :: "'a weights \<Rightarrow> pyval list \<Rightarrow> nat \<Rightarrow> assignment list" where
  "assignments wm tys n =
     base_assignments
     @ (if has_tensor wm ''lm_head.weight'' then lm_head_assignments else [])
     @ concat (map (layer_assignments wm tys) [0..<n])"

subsection \<open>Examples\<close>

text \<open>A small hybrid configuration, one mamba layer and one attention layer, and check
  methods that accept it.\<close>

definition example_config :: config where
  "example_config =
     \<lparr>vocab_size = PInt 50000, max_position_embeddings = PInt 4096, hidden_size = PInt 64,
      num_layers = 2, layer_norm_epsilon = PFloat 0x3EE4F8B588E368F1, use_cache = PBool True,
      tie_word_embeddings = PBool False, initializer_range = PFloat 0x3F947AE147AE147B,
      rope_theta = PInt 10000, rope_scaling = PNone, router_aux_loss_coef = PFloat 0x3F50624DD2F1A9FC,
      bos_token_id = PInt 0, eos_token_id = PInt 0, pad_token_id = PNone,
      m_emb = PNone, m_residual = PFloat 0x3FCC28F5C28F5C29, m_width = PNone,
      normalization_function = PStr ''rmsnorm'', position_embedding_type = PStr ''rope'',
      init_method = PStr ''mup'',
      sequence_mixer_blocks =
        [ArgsBlock (PStr ''mamba2'') [(''num_heads'', PInt 8)],
         DictBlock [(''sequence_mixer_type'', PStr ''softmax_attention''), (''num_attention_heads'', PInt 4)]],
      mlp_blocks = [DictBlock [(''mlp_type'', PStr ''MoE'')], DictBlock [(''mlp_type'', PStr ''MoE'')]]\<rparr>"

definition example_chk :: "config \<Rightarrow> string \<Rightarrow> string \<Rightarrow> pyval \<Rightarrow> error + pyval" where
  "example_chk cfg key key_block expected =
     (if expected \<noteq> PNone then Inr expected
      else if key_block = ''shared_intermediate_size'' then Inr PNone
      else Inr (PInt 4))"

definition example_chk_sm :: "config \<Rightarrow> string \<Rightarrow> string \<Rightarrow> string \<Rightarrow> error + pyval" where
  "example_chk_sm cfg key ty key_block = Inr (PInt 4)"

text \<open>The same configuration with another vocabulary size and with \<^verbatim>\<open>m_emb\<close> and
  \<^verbatim>\<open>m_width\<close> set and \<^verbatim>\<open>m_residual\<close> absent, and a check method that finds a shared
  intermediate size of 512.\<close>

definition example_config2 :: config where
  "example_config2 =
     example_config\<lparr>vocab_size := PInt 32000, m_emb := PFloat 0x4028000000000000,
       m_residual := PNone, m_width := PFloat 0x4020000000000000\<rparr>"

definition example_chk2 :: "config \<Rightarrow> string \<Rightarrow> string \<Rightarrow> pyval \<Rightarrow> error + pyval" where
  "example_chk2 cfg key key_block expected =
     (if expected \<noteq> PNone then Inr expected
      else if key_block = ''shared_intermediate_size'' then Inr (PInt 512)
      else Inr (PInt 4))"

text \<open>
  A checkpoint of two layers, the first a mamba layer and the second an attention layer
  with a shared MLP, a split that cuts a tensor of six elements into three rows, and a
  head type.
\<close>

definition example_weights :: "nat weights" where
  "example_weights = map_of
     [(''transformer.wte.weight'', \<lparr>shape = [3, 2], data = [1, 2, 3, 4, 5, 6]\<rparr>),
      (''transformer.ln_f.weight'', \<lparr>shape = [2], data = [7, 8]\<rparr>),
      (''transformer.h.0.ln_1.weight'', \<lparr>shape = [2], data = [9, 10]\<rparr>),
      (''transformer.h.0.ln_2.weight'', \<lparr>shape = [2], data = [11, 12]\<rparr>),
      (''transformer.h.0.mlp_block.gate.weight'', \<lparr>shape = [1, 2], data = [13, 14]\<rparr>),
      (''transformer.h.0.mlp_block.c_fc.weight'', \<lparr>shape = [1, 4, 2], data = [1, 2, 3, 4, 5, 6, 7, 8]\<rparr>),
      (''transformer.h.0.mlp_block.c_proj.weight'', \<lparr>shape = [1, 2, 2], data = [15, 16, 17, 18]\<rparr>),
      (''transformer.h.0.sequence_mixer.conv1d.weight'', \<lparr>shape = [2, 1, 1], data = [19, 20]\<rparr>),
      (''transformer.h.0.sequence_mixer.conv1d.bias'', \<lparr>shape = [2], data = [21, 22]\<rparr>),
      (''transformer.h.0.sequence_mixer.in_proj.weight'', \<lparr>shape = [2, 2], data = [23, 24, 25, 26]\<rparr>),
      (''transformer.h.0.sequence_mixer.dt_bias'', \<lparr>shape = [1], data = [27]\<rparr>),
      (''transformer.h.0.sequence_mixer.A_log'', \<lparr>shape = [1], data = [28]\<rparr>),
      (''transformer.h.0.sequence_mixer.D'', \<lparr>shape = [1], data = [29]\<rparr>),
      (''transformer.h.0.sequence_mixer.out_proj.weight'', \<lparr>shape = [2, 2], data = [30, 31, 32, 33]\<rparr>),
      (''transformer.h.0.sequence_mixer.norm.weight'', \<lparr>shape = [2], data = [34, 35]\<rparr>),
      (''transformer.h.1.ln_1.weight'', \<lparr>shape = [2], data = [36, 37]\<rparr>),
      (''transformer.h.1.ln_2.weight'', \<lparr>shape = [2], data = [38, 39]\<rparr>),
      (''transformer.h.1.mlp_block.gate.weight'', \<lparr>shape = [1, 2], data = [40, 41]\<rparr>),
      (''transformer.h.1.mlp_block.c_fc.weight'', \<lparr>shape = [1, 2, 2], data = [42, 43, 44, 45]\<rparr>),
      (''transformer.h.1.mlp_block.c_proj.weight'', \<lparr>shape = [1, 2, 1], data = [46, 47]\<rparr>),
      (''transformer.h.1.sequence_mixer.c_attn.weight'', \<lparr>shape = [3, 2], data = [48, 49, 50, 51, 52, 53]\<rparr>),
      (''transformer.h.1.sequence_mixer.c_proj.weight'', \<lparr>shape = [2, 1], data = [54, 55]\<rparr>),
      (''transformer.h.1.mlp_block.c_fc_shared.weight'', \<lparr>shape = [4, 1], data = [56, 57, 58, 59]\<rparr>),
      (''transformer.h.1.mlp_block.c_proj_shared.weight'', \<lparr>shape = [1, 2], data = [60, 61]\<rparr>)]"

definition example_split_qkv ::
  "nat tensor \<Rightarrow> int \<Rightarrow> int \<Rightarrow> int \<Rightarrow> string \<Rightarrow> error + (nat tensor \<times> nat tensor \<times> nat tensor)" where
  "example_split_qkv w num_heads num_key_value_heads head_dim attention_head_type =
     (case data w of
        [a, b, c, d, e, f] \<Rightarrow>
          Inr (\<lparr>shape = [1, 2], data = [a, b]\<rparr>, \<lparr>shape = [1, 2], data = [c, d]\<rparr>,
               \<lparr>shape = [1, 2], data = [e, f]\<rparr>)
      | _ \<Rightarrow> Inl RuntimeError)"

definition example_head_type :: "int \<Rightarrow> int \<Rightarrow> error + string" where
  "example_head_type num_heads num_key_value_heads =
     Inr (if num_heads = num_key_value_heads then ''mha''
          else if num_key_value_heads = 1 then ''mqa'' else ''gqa'')"

definition example_types :: "pyval list" where
  "example_types = [PStr ''mamba'', PStr ''attention'']"

section \<open>Properties\<close>

subsection \<open>Auxiliary facts\<close>

lemma ebind_Inr [simp]: "ebind (Inr x) f = f x"
  by (simp add: ebind_def)

lemma ebind_Inl [simp]: "ebind (Inl e) f = Inl e"
  by (simp add: ebind_def)

lemma ebind_eq_Inr: "ebind m f = Inr y \<longleftrightarrow> (\<exists>x. m = Inr x \<and> f x = Inr y)"
  by (cases m) simp_all

lemma get_key_type: "get_key blk ''sequence_mixer_type'' = Inr (block_type_of blk)"
  by (simp add: get_key_def block_type_of_def split: block.splits option.splits)

lemma block_types_loop_eq:
  "block_types_loop blks acc = Inr (acc @ map (\<lambda>blk. rename_block_type (block_type_of blk)) blks)"
  by (induction blks arbitrary: acc) (simp_all add: get_key_type)

lemma length_blocks [simp]: "length (blocks k m xs) = k"
  by (induction k arbitrary: xs) simp_all

lemma concat_blocks: "length xs = k * m \<Longrightarrow> concat (blocks k m xs) = xs"
  by (induction k arbitrary: xs) simp_all

lemma blocks_length: "length xs = k * m \<Longrightarrow> b \<in> set (blocks k m xs) \<Longrightarrow> length b = m"
proof (induction k arbitrary: xs)
  case 0
  then show ?case by simp
next
  case (Suc k)
  from Suc.prems(1) have len: "length (drop m xs) = k * m" by simp
  from Suc.prems(2) have "b = take m xs \<or> b \<in> set (blocks k m (drop m xs))" by simp
  then show ?case
  proof
    assume "b = take m xs"
    with Suc.prems(1) show ?thesis by simp
  next
    assume "b \<in> set (blocks k m (drop m xs))"
    with Suc.IH [OF len] show ?thesis .
  qed
qed

lemma blocks_concat:
  "(\<And>b. b \<in> set bs \<Longrightarrow> length b = m) \<Longrightarrow> blocks (length bs) m (concat bs) = bs"
  by (induction bs) simp_all

lemma cat_data_two:
  "(\<And>b. b \<in> set bs \<Longrightarrow> length (f b) = p \<and> length (g b) = q) \<Longrightarrow>
   cat_data (length bs) [(p, concat (map f bs)), (q, concat (map g bs))]
     = concat (map (\<lambda>b. f b @ g b) bs)"
  by (induction bs) simp_all

lemma prod_list_split:
  "d < length s \<Longrightarrow> prod_list s = outer_size d s * (s ! d * inner_size d s)"
proof -
  assume "d < length s"
  then have "s = take d s @ s ! d # drop (Suc d) s"
    by (rule id_take_nth_drop)
  then have "prod_list s = prod_list (take d s @ s ! d # drop (Suc d) s)"
    by simp
  then show ?thesis
    by (simp add: outer_size_def inner_size_def)
qed

lemma wrap_dim_less: "wrap_dim ndim dim = Inr d \<Longrightarrow> d < ndim"
  by (auto simp: wrap_dim_def split: if_splits)

lemma split_lens_two:
  "n \<noteq> 0 \<Longrightarrow> n \<noteq> 1 \<Longrightarrow> split_lens n ((n + 1) div 2) = [(n + 1) div 2, n - (n + 1) div 2]"
proof -
  assume n: "n \<noteq> 0" "n \<noteq> 1"
  define k where "k = (n + 1) div 2"
  have k: "n = 2 * k \<or> (n = 2 * k - 1 \<and> 2 \<le> k)" "1 \<le> k"
    using n unfolding k_def by presburger+
  have "(n + k - 1) div k = 2"
  proof (rule div_nat_eqI)
    show "k * 2 \<le> n + k - 1" using k by auto
    show "n + k - 1 < k * Suc 2" using k by auto
  qed
  then show ?thesis
    using k unfolding split_lens_def k_def [symmetric] by (auto simp: Let_def)
qed
lemma wrap_dim_nonempty: "wrap_dim (length s) dim = Inr d \<Longrightarrow> s \<noteq> []"
  by (auto dest: wrap_dim_less)

lemma torch_chunk_two:
  assumes "wrap_dim (length (shape t)) dim = Inr d" and "shape t ! d \<noteq> 1"
  shows "torch_chunk 2 dim t =
           Inr [narrow d 0 ((shape t ! d + 1) div 2) t,
                narrow d ((shape t ! d + 1) div 2) (shape t ! d - (shape t ! d + 1) div 2) t]"
proof (cases "shape t ! d = 0")
  case True
  with assms show ?thesis
    using wrap_dim_nonempty [OF assms(1)]
    by (simp add: torch_chunk_def numeral_2_eq_2)
next
  case False
  then have "(shape t ! d + 1) div 2 \<noteq> 0" by presburger
  with assms False show ?thesis
    using wrap_dim_nonempty [OF assms(1)] split_lens_two [OF False assms(2)]
    by (simp add: torch_chunk_def Let_def)
qed

lemma torch_chunk_one:
  assumes "wrap_dim (length (shape t)) dim = Inr d" and "shape t ! d = 1"
  shows "torch_chunk 2 dim t = Inr [narrow d 0 1 t]"
  using assms wrap_dim_nonempty [OF assms(1)]
  by (simp add: torch_chunk_def split_lens_def)

lemma glu_swap_halves:
  assumes wf: "wf_tensor t"
    and d: "wrap_dim (length (shape t)) dim = Inr d"
    and n: "shape t ! d \<noteq> 1"
  shows "split_and_reorder_for_glu t dim = Inr (swap_halves d t)"
proof -
  define n where "n = shape t ! d"
  define k where "k = (n + 1) div 2"
  define inner where "inner = inner_size d (shape t)"
  define bs where "bs = blocks (outer_size d (shape t)) (n * inner) (data t)"
  have dl: "d < length (shape t)" using d by (rule wrap_dim_less)
  have kn: "k \<le> n" unfolding k_def using n n_def by presburger
  have len: "length (data t) = outer_size d (shape t) * (n * inner)"
    using wf prod_list_split [OF dl] by (simp add: wf_tensor_def n_def inner_def)
  have bl: "\<And>b. b \<in> set bs \<Longrightarrow> length b = n * inner"
    unfolding bs_def using len by (rule blocks_length)
  have lbs: "length bs = outer_size d (shape t)" by (simp add: bs_def)
  let ?x = "narrow d 0 k t" and ?y = "narrow d k (n - k) t"
  have chunk: "torch_chunk 2 dim t = Inr [?x, ?y]"
    using torch_chunk_two [OF d n] by (simp add: n_def k_def)
  have meq: "map (\<lambda>b. take ((n - k) * inner) (drop (k * inner) b)) bs = map (\<lambda>b. drop (k * inner) b) bs"
    by (rule map_cong) (use bl in \<open>simp_all add: diff_mult_distrib\<close>)
  have "data ?y = concat (map (\<lambda>b. take ((n - k) * inner) (drop (k * inner) b)) bs)"
    by (simp add: narrow_def bs_def inner_def n_def Let_def)
  then have ydata: "data ?y = concat (map (\<lambda>b. drop (k * inner) b) bs)"
    by (simp only: meq)
  have xdata: "data ?x = concat (map (\<lambda>b. take (k * inner) b) bs)"
    by (simp add: narrow_def bs_def inner_def n_def Let_def)
  have cd: "cat_data (length bs) [((n - k) * inner, concat (map (\<lambda>b. drop (k * inner) b) bs)),
                (k * inner, concat (map (\<lambda>b. take (k * inner) b) bs))]
          = concat (map (\<lambda>b. drop (k * inner) b @ take (k * inner) b) bs)"
  proof (rule cat_data_two)
    fix b assume "b \<in> set bs"
    then have "length b = n * inner" by (rule bl)
    moreover have "k * inner \<le> n * inner" using kn by simp
    ultimately show "length (drop (k * inner) b) = (n - k) * inner \<and> length (take (k * inner) b) = k * inner"
      by (simp add: diff_mult_distrib)
  qed
  have sx: "shape ?x = (shape t)[d := k]" and sy: "shape ?y = (shape t)[d := n - k]"
    by (simp_all add: narrow_def Let_def)
  have io: "inner_size d ((shape t)[d := n - k]) = inner"
    "outer_size d ((shape t)[d := n - k]) = outer_size d (shape t)"
    by (simp_all add: inner_size_def outer_size_def inner_def)
  have "torch_cat [?y, ?x] dim =
          Inr \<lparr>shape = (shape t)[d := n],
               data = cat_data (length bs) [((n - k) * inner, data ?y), (k * inner, data ?x)]\<rparr>"
    using d dl kn by (simp add: torch_cat_def sx sy io lbs)
  also have "\<dots> = Inr (swap_halves d t)"
    unfolding ydata xdata cd
    by (simp add: swap_halves_def Let_def n_def k_def inner_def bs_def)
  finally have "torch_cat [?y, ?x] dim = Inr (swap_halves d t)" .
  with chunk show ?thesis
    by (simp add: split_and_reorder_for_glu_def)
qed

lemma drop_take_rotate:
  assumes "length b = n * inner" and "n \<noteq> 1"
  shows "drop ((n + 1) div 2 * inner) b @ take ((n + 1) div 2 * inner) b
           = rotate ((n + 1) div 2 * inner) b"
proof (cases "b = []")
  case True
  then show ?thesis by simp
next
  case False
  with assms have pos: "0 < inner" "2 \<le> n" by (cases n; cases inner; auto)+
  then have "(n + 1) div 2 < n" by presburger
  with pos have "(n + 1) div 2 * inner < n * inner" by simp
  then have "(n + 1) div 2 * inner mod length b = (n + 1) div 2 * inner"
    using assms by simp
  then show ?thesis by (simp add: rotate_drop_take)
qed

lemma block_len:
  assumes "wf_tensor t" and "d < length (shape t)"
  shows "length (data t) = outer_size d (shape t) * (shape t ! d * inner_size d (shape t))"
  using assms prod_list_split [of d "shape t"] by (simp add: wf_tensor_def)

lemma swap_halves_roll:
  assumes wf: "wf_tensor t" and dl: "d < length (shape t)" and n: "shape t ! d \<noteq> 1"
  shows "swap_halves d t = roll_left d ((shape t ! d + 1) div 2) t"
proof -
  let ?bs = "blocks (outer_size d (shape t)) (shape t ! d * inner_size d (shape t)) (data t)"
  have meq: "map (\<lambda>b. drop ((shape t ! d + 1) div 2 * inner_size d (shape t)) b
                  @ take ((shape t ! d + 1) div 2 * inner_size d (shape t)) b) ?bs
        = map (rotate ((shape t ! d + 1) div 2 * inner_size d (shape t))) ?bs"
  proof (rule map_cong [OF refl])
    fix b assume "b \<in> set ?bs"
    then have "length b = shape t ! d * inner_size d (shape t)"
      by (rule blocks_length [OF block_len [OF wf dl]])
    then show "drop ((shape t ! d + 1) div 2 * inner_size d (shape t)) b
                  @ take ((shape t ! d + 1) div 2 * inner_size d (shape t)) b
             = rotate ((shape t ! d + 1) div 2 * inner_size d (shape t)) b"
      using n by (rule drop_take_rotate)
  qed
  show ?thesis
    unfolding swap_halves_def roll_left_def Let_def meq by (rule refl)
qed

lemma shape_roll_left [simp]: "shape (roll_left d j t) = shape t"
  by (simp add: roll_left_def Let_def)

lemma length_concat_same:
  "(\<And>b. b \<in> set bs \<Longrightarrow> length (f b) = length b) \<Longrightarrow>
   length (concat (map f bs)) = length (concat bs)"
  by (induction bs) simp_all

lemma wf_roll_left:
  assumes wf: "wf_tensor t" and dl: "d < length (shape t)"
  shows "wf_tensor (roll_left d j t)"
proof -
  let ?m = "shape t ! d * inner_size d (shape t)"
  let ?bs = "blocks (outer_size d (shape t)) ?m (data t)"
  have "length (concat (map (rotate (j * inner_size d (shape t))) ?bs)) = length (concat ?bs)"
    by (rule length_concat_same) simp
  also have "\<dots> = length (data t)"
    by (simp add: concat_blocks [OF block_len [OF wf dl]])
  finally show ?thesis using wf by (simp add: wf_tensor_def roll_left_def Let_def)
qed

lemma roll_left_roll_left:
  assumes wf: "wf_tensor t" and dl: "d < length (shape t)"
  shows "roll_left d i (roll_left d j t) = roll_left d (i + j) t"
proof -
  let ?inner = "inner_size d (shape t)"
  let ?m = "shape t ! d * ?inner"
  let ?bs = "blocks (outer_size d (shape t)) ?m (data t)"
  have "blocks (length (map (rotate (j * ?inner)) ?bs)) ?m (concat (map (rotate (j * ?inner)) ?bs))
          = map (rotate (j * ?inner)) ?bs"
    by (rule blocks_concat) (auto dest: blocks_length [OF block_len [OF wf dl]])
  then have "blocks (outer_size d (shape t)) ?m (concat (map (rotate (j * ?inner)) ?bs))
          = map (rotate (j * ?inner)) ?bs"
    by simp
  then show ?thesis
    by (simp add: roll_left_def Let_def comp_def rotate_rotate add_mult_distrib)
qed

lemma roll_left_size:
  assumes wf: "wf_tensor t" and dl: "d < length (shape t)"
  shows "roll_left d (j + shape t ! d) t = roll_left d j t"
proof -
  let ?inner = "inner_size d (shape t)"
  let ?m = "shape t ! d * ?inner"
  let ?bs = "blocks (outer_size d (shape t)) ?m (data t)"
  have meq: "map (rotate ((j + shape t ! d) * ?inner)) ?bs = map (rotate (j * ?inner)) ?bs"
  proof (rule map_cong [OF refl])
    fix b assume "b \<in> set ?bs"
    then have len: "length b = ?m"
      by (rule blocks_length [OF block_len [OF wf dl]])
    have "(j + shape t ! d) * ?inner = j * ?inner + length b"
      using len by (simp add: add_mult_distrib)
    then have "rotate ((j + shape t ! d) * ?inner) b = rotate (j * ?inner + length b) b"
      by (rule arg_cong)
    also have "\<dots> = rotate ((j * ?inner + length b) mod length b) b"
      by (rule rotate_conv_mod)
    also have "(j * ?inner + length b) mod length b = j * ?inner mod length b"
      by simp
    also have "rotate (j * ?inner mod length b) b = rotate (j * ?inner) b"
      by (rule rotate_conv_mod [symmetric])
    finally show "rotate ((j + shape t ! d) * ?inner) b = rotate (j * ?inner) b" .
  qed
  show ?thesis unfolding roll_left_def Let_def meq by (rule refl)
qed

lemma roll_left_zero:
  assumes wf: "wf_tensor t" and dl: "d < length (shape t)"
  shows "roll_left d 0 t = t"
  by (simp add: roll_left_def Let_def concat_blocks [OF block_len [OF wf dl]])

lemma glu_roll:
  assumes wf: "wf_tensor t"
    and d: "wrap_dim (length (shape t)) dim = Inr d"
    and n: "shape t ! d \<noteq> 1"
  shows "split_and_reorder_for_glu t dim = Inr (roll_left d ((shape t ! d + 1) div 2) t)"
  using glu_swap_halves [OF wf d n] swap_halves_roll [OF wf wrap_dim_less [OF d] n] by simp

lemma glu_one:
  assumes d: "wrap_dim (length (shape t)) dim = Inr d" and n: "shape t ! d = 1"
  shows "split_and_reorder_for_glu t dim = Inl ValueError"
  using torch_chunk_one [OF d n] by (simp add: split_and_reorder_for_glu_def)

lemma glu_twice_roll:
  assumes wf: "wf_tensor t"
    and d: "wrap_dim (length (shape t)) dim = Inr d"
    and n: "shape t ! d \<noteq> 1"
  shows "ebind (split_and_reorder_for_glu t dim) (\<lambda>u. split_and_reorder_for_glu u dim)
           = Inr (roll_left d ((shape t ! d + 1) div 2 + (shape t ! d + 1) div 2) t)"
proof -
  let ?k = "(shape t ! d + 1) div 2"
  let ?u = "roll_left d ?k t"
  have dl: "d < length (shape t)" using d by (rule wrap_dim_less)
  have wfu: "wf_tensor ?u" using wf dl by (rule wf_roll_left)
  have du: "wrap_dim (length (shape ?u)) dim = Inr d" using d by simp
  have nu: "shape ?u ! d \<noteq> 1" using n by simp
  have "split_and_reorder_for_glu ?u dim = Inr (roll_left d ?k ?u)"
    using glu_roll [OF wfu du nu] by simp
  then show ?thesis
    using glu_roll [OF wf d n] roll_left_roll_left [OF wf dl] by simp
qed

text \<open>Tensor names: the decimal text of an index has digits only, so the index and the
  suffix of a layer's tensor name can be read back from the name.\<close>

lemma digit_char_is_digit: "d < 10 \<Longrightarrow> is_digit (digit_char d)"
  unfolding is_digit_def digit_char_def by (rule nth_mem) simp

lemma digit_char_inj:
  assumes "a < 10" and "b < 10" and "digit_char a = digit_char b"
  shows "a = b"
proof -
  have d: "distinct ''0123456789''" by simp
  from assms show ?thesis
    unfolding digit_char_def using nth_eq_iff_index_eq [OF d, of a b] by simp
qed

lemma str_nat_digits: "c \<in> set (str_nat n) \<Longrightarrow> is_digit c"
proof (induction n arbitrary: c rule: str_nat.induct)
  case (1 n)
  show ?case
  proof (cases "n < 10")
    case True
    with "1.prems" show ?thesis
      by (simp add: str_nat.simps [of n] digit_char_is_digit)
  next
    case False
    with "1.prems" "1.IH" show ?thesis
      by (auto simp: str_nat.simps [of n] digit_char_is_digit)
  qed
qed

lemma str_nat_nonempty: "str_nat n \<noteq> []"
  by (subst str_nat.simps) simp

lemma str_nat_length_one: "length (str_nat n) = Suc 0 \<longleftrightarrow> n < 10"
  using str_nat_nonempty [of "n div 10"]
  by (subst str_nat.simps) (auto simp: Suc_length_conv)

lemma str_nat_inj: "str_nat a = str_nat b \<Longrightarrow> a = b"
proof (induction a arbitrary: b rule: str_nat.induct)
  case (1 a)
  show ?case
  proof (cases "a < 10")
    case True
    then have "length (str_nat a) = Suc 0" by (simp add: str_nat_length_one)
    with "1.prems" have b: "b < 10" by (simp add: str_nat_length_one)
    from "1.prems" True b have "digit_char a = digit_char b"
      by (simp add: str_nat.simps [of a] str_nat.simps [of b])
    with True b show ?thesis by (rule digit_char_inj)
  next
    case False
    then have "length (str_nat a) \<noteq> Suc 0" by (simp add: str_nat_length_one)
    with "1.prems" have b: "\<not> b < 10" by (simp add: str_nat_length_one)
    from "1.prems" False b
    have eq: "str_nat (a div 10) = str_nat (b div 10)" "digit_char (a mod 10) = digit_char (b mod 10)"
      by (simp_all add: str_nat.simps [of a] str_nat.simps [of b])
    from "1.IH" [OF False eq(1)] have "a div 10 = b div 10" .
    moreover from eq(2) have "a mod 10 = b mod 10"
      by (intro digit_char_inj) simp_all
    ultimately show ?thesis
      by (metis div_mult_mod_eq)
  qed
qed

lemma digits_dot_eq:
  assumes "\<And>c. c \<in> set a \<Longrightarrow> is_digit c" and "\<And>c. c \<in> set b \<Longrightarrow> is_digit c"
    and "a @ CHR ''.'' # s = b @ CHR ''.'' # s'"
  shows "a = b \<and> s = s'"
  using assms
proof (induction a arbitrary: b)
  case Nil
  show ?case
  proof (cases b)
    case Nil
    with Nil.prems show ?thesis by simp
  next
    case (Cons c cs)
    with Nil.prems(3) have "c = CHR ''.''" by simp
    moreover from Cons Nil.prems(2) have "is_digit c" by simp
    ultimately show ?thesis by (simp add: is_digit_def)
  qed
next
  case (Cons x xs)
  show ?case
  proof (cases b)
    case Nil
    with Cons.prems(3) have "x = CHR ''.''" by simp
    moreover from Cons.prems(1) have "is_digit x" by simp
    ultimately show ?thesis by (simp add: is_digit_def)
  next
    case (Cons c cs)
    with Cons.prems have "x = c" "xs @ CHR ''.'' # s = cs @ CHR ''.'' # s'" by simp_all
    moreover have "xs = cs \<and> s = s'"
      using Cons.prems(1,2) Cons calculation(2) by (intro Cons.IH) simp_all
    ultimately show ?thesis using Cons by simp
  qed
qed

lemma tgt_name_eq:
  "tgt_name i (CHR ''.'' # s) = tgt_name j (CHR ''.'' # s') \<longleftrightarrow> i = j \<and> s = s'"
proof
  assume "tgt_name i (CHR ''.'' # s) = tgt_name j (CHR ''.'' # s')"
  then have "str_nat i @ CHR ''.'' # s = str_nat j @ CHR ''.'' # s'"
    by (simp add: tgt_name_def)
  then have "str_nat i = str_nat j \<and> s = s'"
    by (intro digits_dot_eq) (auto dest: str_nat_digits)
  then show "i = j \<and> s = s'" by (auto dest: str_nat_inj)
qed simp

lemma src_name_eq:
  "src_name i (CHR ''.'' # s) = src_name j (CHR ''.'' # s') \<longleftrightarrow> i = j \<and> s = s'"
proof
  assume "src_name i (CHR ''.'' # s) = src_name j (CHR ''.'' # s')"
  then have "str_nat i @ CHR ''.'' # s = str_nat j @ CHR ''.'' # s'"
    by (simp add: src_name_def)
  then have "str_nat i = str_nat j \<and> s = s'"
    by (intro digits_dot_eq) (auto dest: str_nat_digits)
  then show "i = j \<and> s = s'" by (auto dest: str_nat_inj)
qed simp

lemma tgt_name_same [simp]: "tgt_name i s = tgt_name i s' \<longleftrightarrow> s = s'"
  by (simp add: tgt_name_def)

lemma tgt_name_not_base [simp]:
  "tgt_name i s \<noteq> ''model.embed_tokens.weight''" "tgt_name i s \<noteq> ''model.norm.weight''"
  "tgt_name i s \<noteq> ''lm_head.weight''"
  "''model.embed_tokens.weight'' \<noteq> tgt_name i s" "''model.norm.weight'' \<noteq> tgt_name i s"
  "''lm_head.weight'' \<noteq> tgt_name i s"
  by (simp_all add: tgt_name_def)

text \<open>
  The export is its list of assignments carried out in order, whenever the head type is
  found and the list of block types has an entry for every layer.
\<close>

lemma ebind_assoc: "ebind (ebind m f) g = ebind m (\<lambda>x. ebind (f x) g)"
  by (cases m) simp_all

lemma ebind_Inr_right: "ebind m Inr = m"
  by (cases m) simp_all

lemma ebind_cong:
  "m = m' \<Longrightarrow> (\<And>x. m' = Inr x \<Longrightarrow> f x = g x) \<Longrightarrow> ebind m f = ebind m' g"
  by (cases m') simp_all

lemma assign_Rename: "assign split wm (tgt, Rename, src) sd = copy_tensor wm src tgt sd"
  by (simp add: assign_def transform_def copy_tensor_def ebind_assoc)

lemma assign_SwapHalves:
  "assign split wm (tgt, SwapHalves dim, src) sd = glu_tensor wm src dim tgt sd"
  by (simp add: assign_def transform_def glu_tensor_def ebind_assoc)

lemma perform_append:
  "perform split wm (es @ es') sd = ebind (perform split wm es sd) (perform split wm es')"
  by (induction es arbitrary: sd) (simp_all add: ebind_assoc cong: ebind_cong)

lemma perform_mamba: "perform split wm (mamba_assignments i) sd = export_mamba wm i sd"
  by (simp add: mamba_assignments_def export_mamba_def assign_Rename ebind_Inr_right
        cong: ebind_cong)

lemma perform_common:
  "ebind (perform split wm (common_assignments i) sd) f =
     ebind (copy_tensor wm (src_name i ''.ln_1.weight'')
              (tgt_name i ''.input_layernorm.weight'') sd) (\<lambda>sd.
     ebind (copy_tensor wm (src_name i ''.ln_2.weight'')
              (tgt_name i ''.post_attention_layernorm.weight'') sd) (\<lambda>sd.
     ebind (copy_tensor wm (src_name i ''.mlp_block.gate.weight'')
              (tgt_name i ''.block_sparse_moe.router.layer.weight'') sd) (\<lambda>sd.
     ebind (glu_tensor wm (src_name i ''.mlp_block.c_fc.weight'') 1
              (tgt_name i ''.block_sparse_moe.input_linear.weight'') sd) (\<lambda>sd.
     ebind (copy_tensor wm (src_name i ''.mlp_block.c_proj.weight'')
              (tgt_name i ''.block_sparse_moe.output_linear.weight'') sd) f))))"
  by (simp add: common_assignments_def assign_Rename assign_SwapHalves ebind_assoc ebind_Inr_right
        cong: ebind_cong)

lemma perform_shared:
  "perform split wm (if has_tensor wm (src_name i ''.mlp_block.c_fc_shared.weight'')
        then shared_assignments i else []) sd = export_shared wm i sd"
  by (simp add: shared_assignments_def export_shared_def assign_Rename assign_SwapHalves
        ebind_Inr_right cong: ebind_cong)

lemma perform_attention:
  "perform (\<lambda>w. split_qkv w nh nkv hdim aht) wm (attention_assignments i) sd
     = export_attention split_qkv wm nh nkv hdim aht i sd"
proof (cases "wm (src_name i ''.sequence_mixer.c_attn.weight'')")
  case None
  then show ?thesis
    by (simp add: attention_assignments_def export_attention_def assign_def transform_def
          get_tensor_def)
next
  case (Some w)
  show ?thesis
  proof (cases "split_qkv w nh nkv hdim aht")
    case (Inl e)
    with Some show ?thesis
      by (simp add: attention_assignments_def export_attention_def assign_def transform_def
            get_tensor_def)
  next
    case (Inr qkv)
    obtain q k v where "qkv = (q, k, v)" by (cases qkv) auto
    with Some Inr show ?thesis
      by (simp add: attention_assignments_def export_attention_def assign_def transform_def
            get_tensor_def copy_tensor_def ebind_assoc ebind_Inr_right cong: ebind_cong)
  qed
qed

lemma perform_mixer:
  "perform (\<lambda>w. split_qkv w nh nkv hdim aht) wm (mixer_assignments bt i) sd
     = (if bt = PStr ''mamba'' then export_mamba wm i sd
        else if bt = PStr ''attention''
        then export_attention split_qkv wm nh nkv hdim aht i sd
        else Inr sd)"
  by (simp add: mixer_assignments_def perform_mamba perform_attention)

lemma export_layer_perform:
  assumes "i < length tys"
  shows "export_layer split_qkv wm tys nh nkv hdim aht i sd
       = perform (\<lambda>w. split_qkv w nh nkv hdim aht) wm (layer_assignments wm tys i) sd"
  using assms
  by (simp only: layer_assignments_def perform_append perform_common perform_shared
        perform_mixer export_layer_def list_get_def if_True ebind_Inr ebind_assoc
        cong: ebind_cong)

lemma export_layers_perform:
  assumes "\<forall>i\<in>set js. i < length tys"
  shows "export_layers split_qkv wm tys nh nkv hdim aht js sd
       = perform (\<lambda>w. split_qkv w nh nkv hdim aht) wm (concat (map (layer_assignments wm tys) js)) sd"
  using assms
  by (induction js arbitrary: sd) (simp_all add: perform_append export_layer_perform cong: ebind_cong)

lemma export_state_dict_perform:
  assumes ht: "head_type nh nkv = Inr aht" and len: "nat n \<le> length tys"
  shows "export_state_dict_to_huggingface head_type split_qkv wm n tys nh nkv hdim
       = perform (\<lambda>w. split_qkv w nh nkv hdim aht) wm (assignments wm tys (nat n)) Map.empty"
proof -
  have js: "\<forall>i\<in>set [0..<nat n]. i < length tys" using len by auto
  show ?thesis
    by (cases "wm ''transformer.wte.weight''"; cases "wm ''transformer.ln_f.weight''";
        cases "wm ''lm_head.weight''")
      (simp_all add: export_state_dict_to_huggingface_def assignments_def base_assignments_def
        lm_head_assignments_def perform_append export_layers_perform [OF js] ht
        assign_Rename copy_tensor_def get_tensor_def has_tensor_def)
qed

lemma assign_eq_Inr:
  "assign split wm (tgt, tr, src) sd = Inr sd' \<longleftrightarrow>
     (\<exists>t. transform split wm tr src = Inr t \<and> sd' = sd(tgt \<mapsto> t))"
  by (auto simp: assign_def ebind_eq_Inr)

lemma perform_Cons_eq_Inr:
  "perform split wm ((tgt, tr, src) # es) sd = Inr sd' \<longleftrightarrow>
     (\<exists>t. transform split wm tr src = Inr t \<and> perform split wm es (sd(tgt \<mapsto> t)) = Inr sd')"
  by (auto simp: ebind_eq_Inr assign_eq_Inr)

lemma perform_frame:
  "perform split wm es sd = Inr sd' \<Longrightarrow> k \<notin> fst ` set es \<Longrightarrow> sd' k = sd k"
proof (induction es arbitrary: sd)
  case Nil
  then show ?case by simp
next
  case (Cons e es)
  obtain tgt tr src where e: "e = (tgt, tr, src)" by (cases e) auto
  from Cons.prems(1) obtain t where
    p: "perform split wm es (sd(tgt \<mapsto> t)) = Inr sd'"
    unfolding e perform_Cons_eq_Inr by blast
  from Cons.prems(2) have k: "k \<noteq> tgt" "k \<notin> fst ` set es" by (auto simp: e)
  from Cons.IH [OF p k(2)] k(1) show ?case by simp
qed

lemma perform_entry:
  "perform split wm es sd = Inr sd' \<Longrightarrow> distinct (map fst es) \<Longrightarrow> (k, tr, src) \<in> set es \<Longrightarrow>
     \<exists>t. transform split wm tr src = Inr t \<and> sd' k = Some t"
proof (induction es arbitrary: sd)
  case Nil
  then show ?case by simp
next
  case (Cons e es)
  obtain tgt tr' src' where e: "e = (tgt, tr', src')" by (cases e) auto
  from Cons.prems(1) obtain t where
    t: "transform split wm tr' src' = Inr t"
    and p: "perform split wm es (sd(tgt \<mapsto> t)) = Inr sd'"
    unfolding e perform_Cons_eq_Inr by blast
  from Cons.prems(2) have d: "tgt \<notin> fst ` set es" "distinct (map fst es)" by (auto simp: e)
  show ?case
  proof (cases "(k, tr, src) = e")
    case True
    then have "k = tgt" "tr = tr'" "src = src'" by (simp_all add: e)
    with perform_frame [OF p d(1)] t show ?thesis by simp
  next
    case False
    with Cons.prems(3) have "(k, tr, src) \<in> set es" by simp
    from Cons.IH [OF p d(2) this] show ?thesis .
  qed
qed

lemma perform_dom:
  "perform split wm es sd = Inr sd' \<Longrightarrow> dom sd' = dom sd \<union> fst ` set es"
proof (induction es arbitrary: sd)
  case Nil
  then show ?case by simp
next
  case (Cons e es)
  obtain tgt tr src where e: "e = (tgt, tr, src)" by (cases e) auto
  from Cons.prems(1) obtain t where
    p: "perform split wm es (sd(tgt \<mapsto> t)) = Inr sd'"
    unfolding e perform_Cons_eq_Inr by blast
  from Cons.IH [OF p] show ?case by (auto simp: e)
qed

lemma perform_total:
  "(\<And>tgt tr src. (tgt, tr, src) \<in> set es \<Longrightarrow> \<exists>t. transform split wm tr src = Inr t) \<Longrightarrow>
     \<exists>sd'. perform split wm es sd = Inr sd'"
proof (induction es arbitrary: sd)
  case Nil
  then show ?case by simp
next
  case (Cons e es)
  obtain tgt tr src where e: "e = (tgt, tr, src)" by (cases e) auto
  from Cons.prems [of tgt tr src] obtain t where t: "transform split wm tr src = Inr t"
    by (auto simp: e)
  have "\<exists>sd'. perform split wm es (sd(tgt \<mapsto> t)) = Inr sd'"
  proof (rule Cons.IH)
    fix tgt' tr' src'
    assume "(tgt', tr', src') \<in> set es"
    then show "\<exists>t. transform split wm tr' src' = Inr t"
      using Cons.prems [of tgt' tr' src'] by simp
  qed
  with t show ?case unfolding e perform_Cons_eq_Inr by blast
qed

lemma perform_succeeds:
  "perform split wm es sd = Inr sd' \<Longrightarrow> (tgt, tr, src) \<in> set es \<Longrightarrow>
     \<exists>t. transform split wm tr src = Inr t"
proof (induction es arbitrary: sd)
  case Nil
  then show ?case by simp
next
  case (Cons e es)
  obtain tgt' tr' src' where e: "e = (tgt', tr', src')" by (cases e) auto
  from Cons.prems(1) obtain t where
    t: "transform split wm tr' src' = Inr t"
    and p: "perform split wm es (sd(tgt' \<mapsto> t)) = Inr sd'"
    unfolding e perform_Cons_eq_Inr by blast
  show ?case
  proof (cases "(tgt, tr, src) = e")
    case True
    with t show ?thesis by (auto simp: e)
  next
    case False
    with Cons.prems(2) have "(tgt, tr, src) \<in> set es" by simp
    from Cons.IH [OF p this] show ?thesis .
  qed
qed

lemma common_targets:
  "e \<in> set (common_assignments i) \<Longrightarrow> \<exists>s. fst e = tgt_name i (CHR ''.'' # s)"
  by (auto simp: common_assignments_def)

lemma mamba_targets:
  "e \<in> set (mamba_assignments i) \<Longrightarrow> \<exists>s. fst e = tgt_name i (CHR ''.'' # s)"
  by (auto simp: mamba_assignments_def)

lemma attention_targets:
  "e \<in> set (attention_assignments i) \<Longrightarrow> \<exists>s. fst e = tgt_name i (CHR ''.'' # s)"
  by (auto simp: attention_assignments_def)

lemma shared_targets:
  "e \<in> set (shared_assignments i) \<Longrightarrow> \<exists>s. fst e = tgt_name i (CHR ''.'' # s)"
  by (auto simp: shared_assignments_def)

lemma layer_targets:
  "e \<in> set (layer_assignments wm tys i) \<Longrightarrow> \<exists>s. fst e = tgt_name i (CHR ''.'' # s)"
  using common_targets [of e i] mamba_targets [of e i] attention_targets [of e i]
    shared_targets [of e i]
  by (auto simp: layer_assignments_def mixer_assignments_def split: if_splits)

lemma distinct_layer_targets: "distinct (map fst (layer_assignments wm tys i))"
  by (cases "tys ! i = PStr ''mamba''"; cases "tys ! i = PStr ''attention''";
      cases "has_tensor wm (src_name i ''.mlp_block.c_fc_shared.weight'')")
    (simp_all add: layer_assignments_def common_assignments_def mixer_assignments_def
        mamba_assignments_def attention_assignments_def shared_assignments_def)

lemma distinct_layers_targets:
  "distinct js \<Longrightarrow> distinct (map fst (concat (map (layer_assignments wm tys) js)))"
proof (induction js)
  case Nil
  then show ?case by simp
next
  case (Cons j js)
  have "fst e \<noteq> fst e'"
    if "e \<in> set (layer_assignments wm tys j)"
      and "e' \<in> set (concat (map (layer_assignments wm tys) js))" for e e'
  proof -
    from that(2) obtain j' where j': "j' \<in> set js" "e' \<in> set (layer_assignments wm tys j')"
      by auto
    from layer_targets [OF that(1)] layer_targets [OF j'(2)] j'(1) Cons.prems
    show ?thesis by (auto simp: tgt_name_eq)
  qed
  then have "fst ` set (layer_assignments wm tys j)
      \<inter> fst ` set (concat (map (layer_assignments wm tys) js)) = {}"
    by blast
  with Cons show ?case by (simp add: distinct_layer_targets)
qed

lemma layers_targets_not_base:
  assumes "k \<in> set (map fst (concat (map (layer_assignments wm tys) js)))"
  shows "k \<noteq> ''model.embed_tokens.weight'' \<and> k \<noteq> ''model.norm.weight''
       \<and> k \<noteq> ''lm_head.weight''"
proof -
  from assms obtain e j where e: "e \<in> set (layer_assignments wm tys j)" and k: "k = fst e"
    by auto
  from layer_targets [OF e] obtain s where "fst e = tgt_name j (CHR ''.'' # s)" ..
  with k show ?thesis by simp
qed

lemma distinct_targets: "distinct (map fst (assignments wm tys n))"
proof -
  let ?L = "map fst (concat (map (layer_assignments wm tys) [0..<n]))"
  have d: "distinct ?L" by (rule distinct_layers_targets) simp
  have n1: "''model.embed_tokens.weight'' \<notin> set ?L"
    and n2: "''model.norm.weight'' \<notin> set ?L"
    and n3: "''lm_head.weight'' \<notin> set ?L"
    using layers_targets_not_base [of _ wm tys "[0..<n]"] by blast+
  have "map fst (assignments wm tys n) =
      ''model.embed_tokens.weight'' # ''model.norm.weight''
        # (if has_tensor wm ''lm_head.weight'' then [''lm_head.weight''] else []) @ ?L"
    by (simp add: assignments_def base_assignments_def lm_head_assignments_def)
  also have "distinct \<dots>"
    using d n1 n2 n3 by simp
  finally show ?thesis .
qed

lemma transform_Rename: "transform split wm Rename src = get_tensor wm src"
  by (simp add: transform_def ebind_Inr_right)

lemma transform_Rename_eq_Inr: "transform split wm Rename src = Inr t \<longleftrightarrow> wm src = Some t"
  by (simp add: transform_Rename get_tensor_def split: option.splits)

lemma transform_SplitQKV_eq_Inr:
  "transform split wm (SplitQKV p) src = Inr t \<longleftrightarrow>
     (\<exists>w q k v. wm src = Some w \<and> split w = Inr (q, k, v)
        \<and> t = (case p of Query \<Rightarrow> q | Key \<Rightarrow> k | Value \<Rightarrow> v))"
  by (auto simp: transform_def get_tensor_def ebind_eq_Inr split: option.splits)




lemma set_assignments:
  "set (assignments wm tys n) =
     set base_assignments
     \<union> (if has_tensor wm ''lm_head.weight'' then set lm_head_assignments else {})
     \<union> (\<Union>i\<in>{..<n}. set (layer_assignments wm tys i))"
  by (auto simp: assignments_def)

lemma base_in_assignments: "e \<in> set base_assignments \<Longrightarrow> e \<in> set (assignments wm tys n)"
  by (simp add: set_assignments)

lemma layer_in_assignments:
  "i < n \<Longrightarrow> e \<in> set (layer_assignments wm tys i) \<Longrightarrow> e \<in> set (assignments wm tys n)"
  unfolding set_assignments by blast

lemma common_in_assignments:
  "i < n \<Longrightarrow> e \<in> set (common_assignments i) \<Longrightarrow> e \<in> set (assignments wm tys n)"
  using layer_in_assignments [of i n e wm tys] by (auto simp: layer_assignments_def)

lemma mamba_in_assignments:
  "i < n \<Longrightarrow> tys ! i = PStr ''mamba'' \<Longrightarrow> e \<in> set (mamba_assignments i) \<Longrightarrow>
     e \<in> set (assignments wm tys n)"
  using layer_in_assignments [of i n e wm tys] by (auto simp: layer_assignments_def mixer_assignments_def)

lemma attention_in_assignments:
  "i < n \<Longrightarrow> tys ! i = PStr ''attention'' \<Longrightarrow> e \<in> set (attention_assignments i) \<Longrightarrow>
     e \<in> set (assignments wm tys n)"
  using layer_in_assignments [of i n e wm tys] by (auto simp: layer_assignments_def mixer_assignments_def)


lemma export_returns:
  assumes ht: "head_type nh nkv = Inr aht" and len: "nat n \<le> length tys"
    and ok: "\<forall>(tgt, tr, src) \<in> set (assignments wm tys (nat n)).
               \<exists>t. transform (\<lambda>w. split_qkv w nh nkv hdim aht) wm tr src = Inr t"
  shows "\<exists>sd. export_state_dict_to_huggingface head_type split_qkv wm n tys nh nkv hdim = Inr sd
           \<and> perform (\<lambda>w. split_qkv w nh nkv hdim aht) wm (assignments wm tys (nat n)) Map.empty
               = Inr sd"
proof -
  have "\<exists>sd. perform (\<lambda>w. split_qkv w nh nkv hdim aht) wm (assignments wm tys (nat n)) Map.empty
           = Inr sd"
    by (rule perform_total) (use ok in auto)
  moreover have "export_state_dict_to_huggingface head_type split_qkv wm n tys nh nkv hdim
       = perform (\<lambda>w. split_qkv w nh nkv hdim aht) wm (assignments wm tys (nat n)) Map.empty"
    using ht len by (rule export_state_dict_perform)
  ultimately show ?thesis by auto
qed

lemma perform_lookup:
  assumes "perform split wm (assignments wm tys n) Map.empty = Inr sd"
    and "(k, tr, src) \<in> set (assignments wm tys n)"
  shows "\<exists>t. transform split wm tr src = Inr t \<and> sd k = Some t"
  using perform_entry [OF assms(1) distinct_targets assms(2)] .

text \<open>The example checkpoint can be exported: every assignment can be carried out.\<close>

lemma example_all_ok:
  "list_all (\<lambda>(tgt, tr, src).
      case transform (\<lambda>w. example_split_qkv w 4 4 16 ''mha'') example_weights tr src of
        Inl e \<Rightarrow> False | Inr t \<Rightarrow> True)
     (assignments example_weights example_types 2)"
  by code_simp

lemma str_nat_small [simp]: "str_nat 0 = ''0''" "str_nat (Suc 0) = ''1''"
  by (simp_all add: str_nat.simps digit_char_def)

lemma example_ok:
  "\<forall>(tgt, tr, src) \<in> set (assignments example_weights example_types (nat 2)).
     \<exists>t. transform (\<lambda>w. example_split_qkv w 4 4 16 ''mha'') example_weights tr src = Inr t"
proof clarify
  fix tgt tr src
  assume "(tgt, tr, src) \<in> set (assignments example_weights example_types (nat 2))"
  with example_all_ok have
    "case transform (\<lambda>w. example_split_qkv w 4 4 16 ''mha'') example_weights tr src of
       Inl e \<Rightarrow> False | Inr t \<Rightarrow> True"
    by (auto simp: list_all_iff)
  then show "\<exists>t. transform (\<lambda>w. example_split_qkv w 4 4 16 ''mha'') example_weights tr src = Inr t"
    by (cases "transform (\<lambda>w. example_split_qkv w 4 4 16 ''mha'') example_weights tr src") auto
qed



subsection \<open>The block types\<close>

text \<open>
  C9: \<^verbatim>\<open>_get_sequence_mixer_block_types\<close> returns, for every configuration, one entry
  per block of \<^verbatim>\<open>sequence_mixer_blocks\<close>, in the same order; each entry is the type of
  its own block with mamba2 renamed to mamba, softmax_attention renamed to attention and
  any other value left as it is.
\<close>

theorem block_types_elementwise:
  "get_sequence_mixer_block_types cfg =
     Inr (map (\<lambda>blk. if block_type_of blk = PStr ''mamba2'' then PStr ''mamba''
                      else if block_type_of blk = PStr ''softmax_attention'' then PStr ''attention''
                      else block_type_of blk)
            (sequence_mixer_blocks cfg))"
  by (simp add: get_sequence_mixer_block_types_def block_types_loop_eq rename_block_type_def)

subsection \<open>The configuration\<close>

text \<open>
  C8: when \<^verbatim>\<open>normalization_function\<close> is not rmsnorm the export of the configuration
  raises AssertionError, whatever the check methods would do: the assertion comes first and
  no target configuration is built.
\<close>

theorem assertion_first:
  "normalization_function cfg \<noteq> PStr ''rmsnorm'' \<Longrightarrow>
   export_config_to_huggingface chk chk_sm cfg = Inl AssertionError"
  by (simp add: export_config_to_huggingface_def)

theorem assertion_first_witness:
  "normalization_function (example_config\<lparr>normalization_function := PStr ''layernorm''\<rparr>) \<noteq> PStr ''rmsnorm''
   \<and> export_config_to_huggingface example_chk example_chk_sm
        (example_config\<lparr>normalization_function := PStr ''layernorm''\<rparr>) = Inl AssertionError"
  using assertion_first [of "example_config\<lparr>normalization_function := PStr ''layernorm''\<rparr>"
      example_chk example_chk_sm]
  by simp

text \<open>
  C7: when the normalization function is \<^verbatim>\<open>rmsnorm\<close> and the calls of the check methods
  return, the export returns a configuration that carries \<^verbatim>\<open>vocab_size\<close>,
  \<^verbatim>\<open>max_position_embeddings\<close> and \<^verbatim>\<open>hidden_size\<close> over unchanged, has
  \<^verbatim>\<open>num_hidden_layers\<close> equal to the source \<^verbatim>\<open>num_layers\<close> and \<^verbatim>\<open>rms_norm_eps\<close> equal
  to \<^verbatim>\<open>layer_norm_epsilon\<close>, and replaces an absent value by its default: 0 for the
  shared intermediate size, 1 for the three multipliers; a value that is present is kept.
\<close>

theorem config_scalars:
  assumes nf: "normalization_function cfg = PStr ''rmsnorm''"
    and chk: "\<And>key key_block expected. (key, key_block, expected) \<in> set chk_calls \<Longrightarrow>
                \<exists>v. chk cfg key key_block expected = Inr v"
    and chk_sm: "\<And>key ty key_block. (key, ty, key_block) \<in> set chk_sm_calls \<Longrightarrow>
                \<exists>v. chk_sm cfg key ty key_block = Inr v"
  shows "\<exists>hc sis. export_config_to_huggingface chk chk_sm cfg = Inr hc
       \<and> chk cfg ''mlp_blocks'' ''shared_intermediate_size'' PNone = Inr sis
       \<and> hf_vocab_size hc = vocab_size cfg
       \<and> hf_max_position_embeddings hc = max_position_embeddings cfg
       \<and> hf_hidden_size hc = hidden_size cfg
       \<and> hf_num_hidden_layers hc = num_layers cfg
       \<and> hf_rms_norm_eps hc = layer_norm_epsilon cfg
       \<and> hf_shared_intermediate_size hc = (if sis = PNone then PInt 0 else sis)
       \<and> hf_embedding_multiplier hc = (if m_emb cfg = PNone then PInt 1 else m_emb cfg)
       \<and> hf_residual_multiplier hc = (if m_residual cfg = PNone then PInt 1 else m_residual cfg)
       \<and> hf_logits_scaling hc = (if m_width cfg = PNone then PInt 1 else m_width cfg)"
proof -
  obtain a1 where a1: "chk cfg ''sequence_mixer_blocks'' ''add_bias'' (PBool False) = Inr a1"
    using chk [of "''sequence_mixer_blocks''" "''add_bias''" "PBool False"] by (auto simp: chk_calls_def)
  obtain a2 where a2: "chk cfg ''mlp_blocks'' ''add_bias'' (PBool False) = Inr a2"
    using chk [of "''mlp_blocks''" "''add_bias''" "PBool False"] by (auto simp: chk_calls_def)
  obtain a3 where a3: "chk cfg ''mlp_blocks'' ''activation_function'' (PStr ''swiglu'') = Inr a3"
    using chk [of "''mlp_blocks''" "''activation_function''" "PStr ''swiglu''"] by (auto simp: chk_calls_def)
  obtain a4 where a4: "chk cfg ''mlp_blocks'' ''mlp_type'' (PStr ''MoE'') = Inr a4"
    using chk [of "''mlp_blocks''" "''mlp_type''" "PStr ''MoE''"] by (auto simp: chk_calls_def)
  obtain sis where sis: "chk cfg ''mlp_blocks'' ''shared_intermediate_size'' PNone = Inr sis"
    using chk [of "''mlp_blocks''" "''shared_intermediate_size''" PNone] by (auto simp: chk_calls_def)
  obtain a6 where a6: "chk cfg ''mlp_blocks'' ''intermediate_size'' PNone = Inr a6"
    using chk [of "''mlp_blocks''" "''intermediate_size''" PNone] by (auto simp: chk_calls_def)
  obtain a7 where a7: "chk cfg ''mlp_blocks'' ''num_experts'' PNone = Inr a7"
    using chk [of "''mlp_blocks''" "''num_experts''" PNone] by (auto simp: chk_calls_def)
  obtain a8 where a8: "chk cfg ''mlp_blocks'' ''num_experts_per_tok'' PNone = Inr a8"
    using chk [of "''mlp_blocks''" "''num_experts_per_tok''" PNone] by (auto simp: chk_calls_def)
  have sm: "\<exists>v. chk_sm cfg ''sequence_mixer_blocks'' ty kb = Inr v"
    if "(''sequence_mixer_blocks'', ty, kb) \<in> set chk_sm_calls" for ty kb
    using chk_sm [OF that] .
  obtain b1 where b1: "chk_sm cfg ''sequence_mixer_blocks'' ''softmax_attention'' ''num_attention_heads'' = Inr b1"
    using sm [of "''softmax_attention''" "''num_attention_heads''"] by (auto simp: chk_sm_calls_def)
  obtain b2 where b2: "chk_sm cfg ''sequence_mixer_blocks'' ''softmax_attention'' ''num_key_value_heads'' = Inr b2"
    using sm [of "''softmax_attention''" "''num_key_value_heads''"] by (auto simp: chk_sm_calls_def)
  obtain b3 where b3: "chk_sm cfg ''sequence_mixer_blocks'' ''softmax_attention'' ''add_bias'' = Inr b3"
    using sm [of "''softmax_attention''" "''add_bias''"] by (auto simp: chk_sm_calls_def)
  obtain b4 where b4: "chk_sm cfg ''sequence_mixer_blocks'' ''softmax_attention'' ''dropout'' = Inr b4"
    using sm [of "''softmax_attention''" "''dropout''"] by (auto simp: chk_sm_calls_def)
  obtain b5 where b5: "chk_sm cfg ''sequence_mixer_blocks'' ''softmax_attention'' ''attention_multiplier'' = Inr b5"
    using sm [of "''softmax_attention''" "''attention_multiplier''"] by (auto simp: chk_sm_calls_def)
  obtain b6 where b6: "chk_sm cfg ''sequence_mixer_blocks'' ''mamba2'' ''num_groups'' = Inr b6"
    using sm [of "''mamba2''" "''num_groups''"] by (auto simp: chk_sm_calls_def)
  obtain b7 where b7: "chk_sm cfg ''sequence_mixer_blocks'' ''mamba2'' ''num_heads'' = Inr b7"
    using sm [of "''mamba2''" "''num_heads''"] by (auto simp: chk_sm_calls_def)
  obtain b8 where b8: "chk_sm cfg ''sequence_mixer_blocks'' ''mamba2'' ''state_size'' = Inr b8"
    using sm [of "''mamba2''" "''state_size''"] by (auto simp: chk_sm_calls_def)
  obtain b9 where b9: "chk_sm cfg ''sequence_mixer_blocks'' ''mamba2'' ''conv_kernel_size'' = Inr b9"
    using sm [of "''mamba2''" "''conv_kernel_size''"] by (auto simp: chk_sm_calls_def)
  obtain b10 where b10: "chk_sm cfg ''sequence_mixer_blocks'' ''mamba2'' ''chunk_size'' = Inr b10"
    using sm [of "''mamba2''" "''chunk_size''"] by (auto simp: chk_sm_calls_def)
  obtain b11 where b11: "chk_sm cfg ''sequence_mixer_blocks'' ''mamba2'' ''use_conv_bias'' = Inr b11"
    using sm [of "''mamba2''" "''use_conv_bias''"] by (auto simp: chk_sm_calls_def)
  obtain b12 where b12: "chk_sm cfg ''sequence_mixer_blocks'' ''mamba2'' ''add_bias'' = Inr b12"
    using sm [of "''mamba2''" "''add_bias''"] by (auto simp: chk_sm_calls_def)
  show ?thesis
    by (simp add: export_config_to_huggingface_def nf a1 a2 a3 a4 sis a6 a7 a8
          b1 b2 b3 b4 b5 b6 b7 b8 b9 b10 b11 b12
          get_sequence_mixer_block_types_def block_types_loop_eq default_if_none_def)
qed


theorem config_scalars_witness:
  "(\<exists>hc. export_config_to_huggingface example_chk example_chk_sm example_config = Inr hc
      \<and> hf_vocab_size hc = PInt 50000
      \<and> hf_max_position_embeddings hc = PInt 4096
      \<and> hf_hidden_size hc = PInt 64
      \<and> hf_num_hidden_layers hc = 2
      \<and> hf_rms_norm_eps hc = PFloat 0x3EE4F8B588E368F1
      \<and> hf_shared_intermediate_size hc = PInt 0
      \<and> hf_embedding_multiplier hc = PInt 1
      \<and> hf_residual_multiplier hc = PFloat 0x3FCC28F5C28F5C29
      \<and> hf_logits_scaling hc = PInt 1)
   \<and> (\<exists>hc. export_config_to_huggingface example_chk2 example_chk_sm example_config2 = Inr hc
      \<and> hf_vocab_size hc = PInt 32000
      \<and> hf_max_position_embeddings hc = PInt 4096
      \<and> hf_hidden_size hc = PInt 64
      \<and> hf_num_hidden_layers hc = 2
      \<and> hf_rms_norm_eps hc = PFloat 0x3EE4F8B588E368F1
      \<and> hf_shared_intermediate_size hc = PInt 512
      \<and> hf_embedding_multiplier hc = PFloat 0x4028000000000000
      \<and> hf_residual_multiplier hc = PInt 1
      \<and> hf_logits_scaling hc = PFloat 0x4020000000000000)"
proof -
  have nf: "normalization_function example_config = PStr ''rmsnorm''"
    and nf2: "normalization_function example_config2 = PStr ''rmsnorm''"
    by (simp_all add: example_config_def example_config2_def)
  have c: "\<exists>v. example_chk cfg key key_block expected = Inr v"
    and c2: "\<exists>v. example_chk2 cfg key key_block expected = Inr v"
    and sm: "\<exists>v. example_chk_sm cfg key ty key_block = Inr v"
    for cfg key ty key_block expected
    by (simp_all add: example_chk_def example_chk2_def example_chk_sm_def)
  from config_scalars [of example_config example_chk example_chk_sm, OF nf c sm]
    config_scalars [of example_config2 example_chk2 example_chk_sm, OF nf2 c2 sm]
  show ?thesis
    by (simp add: example_config_def example_config2_def example_chk_def example_chk2_def)
qed

subsection \<open>Swapping the halves\<close>

text \<open>
  C10, as the code has it: for a well-formed tensor and a valid dimension of size \<open>n\<close>,
  \<^verbatim>\<open>_split_and_reorder_for_glu\<close> raises ValueError when \<open>n = 1\<close> (the chunking gives one
  piece only) and otherwise returns a tensor of the same shape. Applied twice it gives the
  original back for every even \<open>n\<close>; for an odd \<open>n\<close> other than 1 it gives the tensor rolled
  by one slice along the dimension, which is the original only when the tensor does not
  change under that roll.
\<close>

theorem glu_shape_and_twice:
  assumes wf: "wf_tensor t" and d: "wrap_dim (length (shape t)) dim = Inr d"
  shows "(shape t ! d = 1 \<longrightarrow> split_and_reorder_for_glu t dim = Inl ValueError)
       \<and> (shape t ! d \<noteq> 1 \<longrightarrow>
            (\<exists>u. split_and_reorder_for_glu t dim = Inr u \<and> shape u = shape t))
       \<and> (even (shape t ! d) \<longrightarrow>
            ebind (split_and_reorder_for_glu t dim) (\<lambda>u. split_and_reorder_for_glu u dim) = Inr t)
       \<and> (odd (shape t ! d) \<and> shape t ! d \<noteq> 1 \<longrightarrow>
            ebind (split_and_reorder_for_glu t dim) (\<lambda>u. split_and_reorder_for_glu u dim)
              = Inr (roll_left d 1 t))"
proof (intro conjI impI)
  assume "shape t ! d = 1"
  with d show "split_and_reorder_for_glu t dim = Inl ValueError" by (rule glu_one)
next
  assume "shape t ! d \<noteq> 1"
  from glu_roll [OF wf d this]
  show "\<exists>u. split_and_reorder_for_glu t dim = Inr u \<and> shape u = shape t" by simp
next
  assume ev: "even (shape t ! d)"
  then have n: "shape t ! d \<noteq> 1" by auto
  from ev have "(shape t ! d + 1) div 2 + (shape t ! d + 1) div 2 = 0 + shape t ! d"
    by presburger
  with glu_twice_roll [OF wf d n] roll_left_size [OF wf wrap_dim_less [OF d], of 0]
    roll_left_zero [OF wf wrap_dim_less [OF d]]
  show "ebind (split_and_reorder_for_glu t dim) (\<lambda>u. split_and_reorder_for_glu u dim) = Inr t"
    by simp
next
  assume od: "odd (shape t ! d) \<and> shape t ! d \<noteq> 1"
  then have n: "shape t ! d \<noteq> 1" by simp
  from od have "(shape t ! d + 1) div 2 + (shape t ! d + 1) div 2 = 1 + shape t ! d"
    by presburger
  with glu_twice_roll [OF wf d n] roll_left_size [OF wf wrap_dim_less [OF d], of 1]
  show "ebind (split_and_reorder_for_glu t dim) (\<lambda>u. split_and_reorder_for_glu u dim)
          = Inr (roll_left d 1 t)"
    by simp
qed

theorem glu_shape_and_twice_witness:
  "ebind (split_and_reorder_for_glu \<lparr>shape = [2, 4], data = [1, 2, 3, 4, 5, 6, 7, 8 :: int]\<rparr> 1)
     (\<lambda>u. split_and_reorder_for_glu u 1)
     = Inr \<lparr>shape = [2, 4], data = [1, 2, 3, 4, 5, 6, 7, 8]\<rparr>
   \<and> ebind (split_and_reorder_for_glu \<lparr>shape = [3], data = [1, 2, 3 :: int]\<rparr> 0)
     (\<lambda>u. split_and_reorder_for_glu u 0)
     = Inr \<lparr>shape = [3], data = [2, 3, 1]\<rparr>"
proof
  have wf: "wf_tensor \<lparr>shape = [2, 4], data = [1, 2, 3, 4, 5, 6, 7, 8 :: int]\<rparr>"
    by (simp add: wf_tensor_def)
  have d: "wrap_dim (length (shape \<lparr>shape = [2, 4], data = [1, 2, 3, 4, 5, 6, 7, 8 :: int]\<rparr>)) 1 = Inr 1"
    by (simp add: wrap_dim_def)
  from glu_shape_and_twice [OF wf d]
  show "ebind (split_and_reorder_for_glu \<lparr>shape = [2, 4], data = [1, 2, 3, 4, 5, 6, 7, 8 :: int]\<rparr> 1)
     (\<lambda>u. split_and_reorder_for_glu u 1)
     = Inr \<lparr>shape = [2, 4], data = [1, 2, 3, 4, 5, 6, 7, 8]\<rparr>"
    by simp
next
  have wf: "wf_tensor \<lparr>shape = [3], data = [1, 2, 3 :: int]\<rparr>"
    by (simp add: wf_tensor_def)
  have d: "wrap_dim (length (shape \<lparr>shape = [3], data = [1, 2, 3 :: int]\<rparr>)) 0 = Inr 0"
    by (simp add: wrap_dim_def)
  have r: "roll_left 0 1 \<lparr>shape = [3], data = [1, 2, 3 :: int]\<rparr> = \<lparr>shape = [3], data = [2, 3, 1]\<rparr>"
    by (simp add: roll_left_def inner_size_def outer_size_def Let_def rotate1_def rotate_def)
  from glu_shape_and_twice [OF wf d] r
  show "ebind (split_and_reorder_for_glu \<lparr>shape = [3], data = [1, 2, 3 :: int]\<rparr> 0)
     (\<lambda>u. split_and_reorder_for_glu u 0)
     = Inr \<lparr>shape = [3], data = [2, 3, 1]\<rparr>"
    by simp
qed

text \<open>
  C10, as it is stated, fails: a tensor of odd size 3 whose slices are all equal is
  restored by two applications, and on a tensor of size 1 the function returns nothing.
\<close>

theorem glu_involution_counterexample:
  "odd (shape \<lparr>shape = [3], data = [7, 7, 7 :: int]\<rparr> ! 0)
   \<and> ebind (split_and_reorder_for_glu \<lparr>shape = [3], data = [7, 7, 7 :: int]\<rparr> 0)
       (\<lambda>u. split_and_reorder_for_glu u 0) = Inr \<lparr>shape = [3], data = [7, 7, 7]\<rparr>
   \<and> split_and_reorder_for_glu \<lparr>shape = [1], data = [7 :: int]\<rparr> 0 = Inl ValueError"
proof -
  have wf: "wf_tensor \<lparr>shape = [3], data = [7, 7, 7 :: int]\<rparr>"
    by (simp add: wf_tensor_def)
  have d: "wrap_dim (length (shape \<lparr>shape = [3], data = [7, 7, 7 :: int]\<rparr>)) 0 = Inr 0"
    by (simp add: wrap_dim_def)
  have n: "shape \<lparr>shape = [3], data = [7, 7, 7 :: int]\<rparr> ! 0 \<noteq> 1"
    by simp
  have r: "roll_left 0 j \<lparr>shape = [3], data = [7, 7, 7 :: int]\<rparr> = \<lparr>shape = [3], data = [7, 7, 7]\<rparr>" for j
  proof -
    have "rotate m [7, 7, 7 :: int] = [7, 7, 7]" for m
      by (induction m) simp_all
    then show ?thesis
      by (simp add: roll_left_def inner_size_def outer_size_def Let_def)
  qed
  have one: "split_and_reorder_for_glu \<lparr>shape = [1], data = [7 :: int]\<rparr> 0 = Inl ValueError"
    by (rule glu_one [of _ _ 0]) (simp_all add: wrap_dim_def)
  from glu_twice_roll [OF wf d n] r one show ?thesis by simp
qed

subsection \<open>The state dict\<close>

text \<open>
  The theorems of this subsection are about an export that can be carried out: the head
  type is found, the list of block types has an entry for every layer, and every
  assignment succeeds, that is its source tensor is in the checkpoint, the attention
  split returns and the swap finds two chunks. Then the export returns a state dict.
\<close>



text \<open>
  C2: for a layer whose block type is attention, the exported state dict holds under
  \<^verbatim>\<open>q_proj\<close>, \<^verbatim>\<open>k_proj\<close> and \<^verbatim>\<open>v_proj\<close> the three tensors the split returns for the
  layer's \<^verbatim>\<open>c_attn\<close> weight at the head layout of the export, and under \<^verbatim>\<open>o_proj\<close>
  the layer's \<^verbatim>\<open>sequence_mixer.c_proj\<close> weight unchanged.
\<close>

theorem attention_layers:
  assumes ht: "head_type nh nkv = Inr aht" and len: "nat n \<le> length tys"
    and ok: "\<forall>(tgt, tr, src) \<in> set (assignments wm tys (nat n)).
               \<exists>t. transform (\<lambda>w. split_qkv w nh nkv hdim aht) wm tr src = Inr t"
    and i: "i < nat n" and att: "tys ! i = PStr ''attention''"
  shows "\<exists>sd c_attn query_weight key_weight value_weight c_proj.
           export_state_dict_to_huggingface head_type split_qkv wm n tys nh nkv hdim = Inr sd
         \<and> wm (src_name i ''.sequence_mixer.c_attn.weight'') = Some c_attn
         \<and> split_qkv c_attn nh nkv hdim aht = Inr (query_weight, key_weight, value_weight)
         \<and> sd (tgt_name i ''.self_attn.q_proj.weight'') = Some query_weight
         \<and> sd (tgt_name i ''.self_attn.k_proj.weight'') = Some key_weight
         \<and> sd (tgt_name i ''.self_attn.v_proj.weight'') = Some value_weight
         \<and> wm (src_name i ''.sequence_mixer.c_proj.weight'') = Some c_proj
         \<and> sd (tgt_name i ''.self_attn.o_proj.weight'') = Some c_proj"
proof -
  let ?A = "assignments wm tys (nat n)"
  let ?split = "\<lambda>w. split_qkv w nh nkv hdim aht"
  have "\<exists>sd. export_state_dict_to_huggingface head_type split_qkv wm n tys nh nkv hdim = Inr sd
           \<and> perform ?split wm ?A Map.empty = Inr sd"
    using ht len ok by (rule export_returns)
  then obtain sd where
    ex: "export_state_dict_to_huggingface head_type split_qkv wm n tys nh nkv hdim = Inr sd"
    and p: "perform ?split wm ?A Map.empty = Inr sd" by blast
  have in_A: "e \<in> set (attention_assignments i) \<Longrightarrow> e \<in> set ?A" for e
    using i att by (rule attention_in_assignments)
  have "\<exists>t. transform ?split wm (SplitQKV Query) (src_name i ''.sequence_mixer.c_attn.weight'') = Inr t
          \<and> sd (tgt_name i ''.self_attn.q_proj.weight'') = Some t"
    by (rule perform_lookup [OF p]) (simp add: in_A attention_assignments_def)
  moreover have "\<exists>t. transform ?split wm (SplitQKV Key) (src_name i ''.sequence_mixer.c_attn.weight'') = Inr t
          \<and> sd (tgt_name i ''.self_attn.k_proj.weight'') = Some t"
    by (rule perform_lookup [OF p]) (simp add: in_A attention_assignments_def)
  moreover have "\<exists>t. transform ?split wm (SplitQKV Value) (src_name i ''.sequence_mixer.c_attn.weight'') = Inr t
          \<and> sd (tgt_name i ''.self_attn.v_proj.weight'') = Some t"
    by (rule perform_lookup [OF p]) (simp add: in_A attention_assignments_def)
  moreover have "\<exists>t. transform ?split wm Rename (src_name i ''.sequence_mixer.c_proj.weight'') = Inr t
          \<and> sd (tgt_name i ''.self_attn.o_proj.weight'') = Some t"
    by (rule perform_lookup [OF p]) (simp add: in_A attention_assignments_def)
  ultimately show ?thesis
    using ex by (auto simp: transform_SplitQKV_eq_Inr transform_Rename_eq_Inr)
qed

theorem attention_layers_witness:
  "\<exists>sd. export_state_dict_to_huggingface example_head_type example_split_qkv example_weights 2
           example_types 4 4 16 = Inr sd
       \<and> sd ''model.layers.1.self_attn.q_proj.weight'' = Some \<lparr>shape = [1, 2], data = [48, 49]\<rparr>
       \<and> sd ''model.layers.1.self_attn.k_proj.weight'' = Some \<lparr>shape = [1, 2], data = [50, 51]\<rparr>
       \<and> sd ''model.layers.1.self_attn.v_proj.weight'' = Some \<lparr>shape = [1, 2], data = [52, 53]\<rparr>
       \<and> sd ''model.layers.1.self_attn.o_proj.weight'' = Some \<lparr>shape = [2, 1], data = [54, 55]\<rparr>"
proof -
  have ht: "example_head_type 4 4 = Inr ''mha''" by (simp add: example_head_type_def)
  have len: "nat 2 \<le> length example_types" by (simp add: example_types_def)
  have i: "1 < nat 2" by simp
  have att: "example_types ! 1 = PStr ''attention''" by (simp add: example_types_def)
  from attention_layers [where head_type = example_head_type and split_qkv = example_split_qkv
      and nh = 4 and nkv = 4 and hdim = 16 and aht = "''mha''" and wm = example_weights
      and tys = example_types and n = 2 and i = 1, OF ht len example_ok i att]
  show ?thesis
    by (auto simp: src_name_def tgt_name_def example_weights_def example_split_qkv_def)
qed



text \<open>
  C4: the exported state dict has the embedding and the final norm, and for every layer
  below \<^verbatim>\<open>num_layers\<close> the two layer norms and the router, input and output weights of
  the mixture of experts; for a mamba layer it has the eight mamba tensors as well, for
  an attention layer the four of \<^verbatim>\<open>self_attn\<close>.
\<close>

theorem target_names_present:
  assumes ht: "head_type nh nkv = Inr aht" and len: "nat n \<le> length tys"
    and ok: "\<forall>(tgt, tr, src) \<in> set (assignments wm tys (nat n)).
               \<exists>t. transform (\<lambda>w. split_qkv w nh nkv hdim aht) wm tr src = Inr t"
  shows "\<exists>sd. export_state_dict_to_huggingface head_type split_qkv wm n tys nh nkv hdim = Inr sd
       \<and> ''model.embed_tokens.weight'' \<in> dom sd \<and> ''model.norm.weight'' \<in> dom sd
       \<and> (\<forall>i<nat n.
             tgt_name i ''.input_layernorm.weight'' \<in> dom sd
           \<and> tgt_name i ''.post_attention_layernorm.weight'' \<in> dom sd
           \<and> tgt_name i ''.block_sparse_moe.router.layer.weight'' \<in> dom sd
           \<and> tgt_name i ''.block_sparse_moe.input_linear.weight'' \<in> dom sd
           \<and> tgt_name i ''.block_sparse_moe.output_linear.weight'' \<in> dom sd
           \<and> (tys ! i = PStr ''mamba'' \<longrightarrow>
                 tgt_name i ''.mamba.conv1d.weight'' \<in> dom sd
               \<and> tgt_name i ''.mamba.conv1d.bias'' \<in> dom sd
               \<and> tgt_name i ''.mamba.in_proj.weight'' \<in> dom sd
               \<and> tgt_name i ''.mamba.dt_bias'' \<in> dom sd
               \<and> tgt_name i ''.mamba.A_log'' \<in> dom sd
               \<and> tgt_name i ''.mamba.D'' \<in> dom sd
               \<and> tgt_name i ''.mamba.out_proj.weight'' \<in> dom sd
               \<and> tgt_name i ''.mamba.norm.weight'' \<in> dom sd)
           \<and> (tys ! i = PStr ''attention'' \<longrightarrow>
                 tgt_name i ''.self_attn.q_proj.weight'' \<in> dom sd
               \<and> tgt_name i ''.self_attn.k_proj.weight'' \<in> dom sd
               \<and> tgt_name i ''.self_attn.v_proj.weight'' \<in> dom sd
               \<and> tgt_name i ''.self_attn.o_proj.weight'' \<in> dom sd))"
proof -
  let ?A = "assignments wm tys (nat n)"
  let ?split = "\<lambda>w. split_qkv w nh nkv hdim aht"
  have "\<exists>sd. export_state_dict_to_huggingface head_type split_qkv wm n tys nh nkv hdim = Inr sd
           \<and> perform ?split wm ?A Map.empty = Inr sd"
    using ht len ok by (rule export_returns)
  then obtain sd where
    ex: "export_state_dict_to_huggingface head_type split_qkv wm n tys nh nkv hdim = Inr sd"
    and p: "perform ?split wm ?A Map.empty = Inr sd" by blast
  have dom: "dom sd = fst ` set ?A" using perform_dom [OF p] by simp
  have in_dom: "fst e \<in> dom sd" if "e \<in> set ?A" for e
    using that dom by blast
  have base: "''model.embed_tokens.weight'' \<in> dom sd" "''model.norm.weight'' \<in> dom sd"
    using in_dom [OF base_in_assignments, of "(''model.embed_tokens.weight'', Rename, ''transformer.wte.weight'')"]
      in_dom [OF base_in_assignments, of "(''model.norm.weight'', Rename, ''transformer.ln_f.weight'')"]
    by (simp_all add: base_assignments_def)
  have common: "fst ` set (common_assignments i) \<subseteq> dom sd" if "i < nat n" for i
    using in_dom [OF common_in_assignments [OF that]] by blast
  have mamba: "fst ` set (mamba_assignments i) \<subseteq> dom sd"
    if "i < nat n" "tys ! i = PStr ''mamba''" for i
    using in_dom [OF mamba_in_assignments [OF that]] by blast
  have attention: "fst ` set (attention_assignments i) \<subseteq> dom sd"
    if "i < nat n" "tys ! i = PStr ''attention''" for i
    using in_dom [OF attention_in_assignments [OF that]] by blast
  show ?thesis
  proof (intro exI conjI allI impI)
    show "export_state_dict_to_huggingface head_type split_qkv wm n tys nh nkv hdim = Inr sd"
      by (rule ex)
  qed (use base common mamba attention in
      \<open>simp_all add: common_assignments_def mamba_assignments_def attention_assignments_def\<close>)
qed

theorem target_names_present_witness:
  "\<exists>sd. export_state_dict_to_huggingface example_head_type example_split_qkv example_weights 2
           example_types 4 4 16 = Inr sd
       \<and> ''model.embed_tokens.weight'' \<in> dom sd \<and> ''model.norm.weight'' \<in> dom sd
       \<and> ''model.layers.0.input_layernorm.weight'' \<in> dom sd
       \<and> ''model.layers.0.post_attention_layernorm.weight'' \<in> dom sd
       \<and> ''model.layers.0.block_sparse_moe.router.layer.weight'' \<in> dom sd
       \<and> ''model.layers.0.block_sparse_moe.input_linear.weight'' \<in> dom sd
       \<and> ''model.layers.0.block_sparse_moe.output_linear.weight'' \<in> dom sd
       \<and> ''model.layers.0.mamba.conv1d.weight'' \<in> dom sd
       \<and> ''model.layers.0.mamba.conv1d.bias'' \<in> dom sd
       \<and> ''model.layers.0.mamba.in_proj.weight'' \<in> dom sd
       \<and> ''model.layers.0.mamba.dt_bias'' \<in> dom sd
       \<and> ''model.layers.0.mamba.A_log'' \<in> dom sd
       \<and> ''model.layers.0.mamba.D'' \<in> dom sd
       \<and> ''model.layers.0.mamba.out_proj.weight'' \<in> dom sd
       \<and> ''model.layers.0.mamba.norm.weight'' \<in> dom sd
       \<and> ''model.layers.1.input_layernorm.weight'' \<in> dom sd
       \<and> ''model.layers.1.post_attention_layernorm.weight'' \<in> dom sd
       \<and> ''model.layers.1.block_sparse_moe.router.layer.weight'' \<in> dom sd
       \<and> ''model.layers.1.block_sparse_moe.input_linear.weight'' \<in> dom sd
       \<and> ''model.layers.1.block_sparse_moe.output_linear.weight'' \<in> dom sd
       \<and> ''model.layers.1.self_attn.q_proj.weight'' \<in> dom sd
       \<and> ''model.layers.1.self_attn.k_proj.weight'' \<in> dom sd
       \<and> ''model.layers.1.self_attn.v_proj.weight'' \<in> dom sd
       \<and> ''model.layers.1.self_attn.o_proj.weight'' \<in> dom sd"
proof -
  have ht: "example_head_type 4 4 = Inr ''mha''" by (simp add: example_head_type_def)
  have len: "nat 2 \<le> length example_types" by (simp add: example_types_def)
  from target_names_present [where head_type = example_head_type and split_qkv = example_split_qkv
      and nh = 4 and nkv = 4 and hdim = 16 and aht = "''mha''" and wm = example_weights
      and tys = example_types and n = 2, OF ht len example_ok]
  obtain sd where
    ex: "export_state_dict_to_huggingface example_head_type example_split_qkv example_weights 2
           example_types 4 4 16 = Inr sd"
    and base: "''model.embed_tokens.weight'' \<in> dom sd" "''model.norm.weight'' \<in> dom sd"
    and layers: "\<forall>i<nat 2.
             tgt_name i ''.input_layernorm.weight'' \<in> dom sd
           \<and> tgt_name i ''.post_attention_layernorm.weight'' \<in> dom sd
           \<and> tgt_name i ''.block_sparse_moe.router.layer.weight'' \<in> dom sd
           \<and> tgt_name i ''.block_sparse_moe.input_linear.weight'' \<in> dom sd
           \<and> tgt_name i ''.block_sparse_moe.output_linear.weight'' \<in> dom sd
           \<and> (example_types ! i = PStr ''mamba'' \<longrightarrow>
                 tgt_name i ''.mamba.conv1d.weight'' \<in> dom sd
               \<and> tgt_name i ''.mamba.conv1d.bias'' \<in> dom sd
               \<and> tgt_name i ''.mamba.in_proj.weight'' \<in> dom sd
               \<and> tgt_name i ''.mamba.dt_bias'' \<in> dom sd
               \<and> tgt_name i ''.mamba.A_log'' \<in> dom sd
               \<and> tgt_name i ''.mamba.D'' \<in> dom sd
               \<and> tgt_name i ''.mamba.out_proj.weight'' \<in> dom sd
               \<and> tgt_name i ''.mamba.norm.weight'' \<in> dom sd)
           \<and> (example_types ! i = PStr ''attention'' \<longrightarrow>
                 tgt_name i ''.self_attn.q_proj.weight'' \<in> dom sd
               \<and> tgt_name i ''.self_attn.k_proj.weight'' \<in> dom sd
               \<and> tgt_name i ''.self_attn.v_proj.weight'' \<in> dom sd
               \<and> tgt_name i ''.self_attn.o_proj.weight'' \<in> dom sd)"
    by blast
  from layers [rule_format, of 0] layers [rule_format, of 1] ex base
  show ?thesis
    by (simp add: tgt_name_def example_types_def)
qed

end
